theory Spec2Isabelle
  imports Main "HOL-Library.Word"
begin

unbundle bit_operations_syntax

section \<open>Bytes, byte order and C strings\<close>

text \<open>
  A C \<^verbatim>\<open>char\<close> is an 8-bit word, an \<^verbatim>\<open>int\<close> or \<^verbatim>\<open>int32_t\<close> a 32-bit word. A buffer is the
  list of its bytes; the pointer \<^verbatim>\<open>buffer + n\<close> is \<open>drop n buffer\<close>. A (pointer, length)
  pair handed to \<^verbatim>\<open>send\<close>, \<^verbatim>\<open>write\<close> or \<^verbatim>\<open>memcpy\<close> is the list of the bytes it covers.
\<close>

type_synonym byte = "8 word"

definition ascii :: "string \<Rightarrow> byte list" where
  "ascii s = map of_char s"

definition htonl :: "32 word \<Rightarrow> byte list" where
  "htonl w = [ucast (drop_bit 24 w), ucast (drop_bit 16 w), ucast (drop_bit 8 w), ucast w]"

definition htons :: "16 word \<Rightarrow> byte list" where
  "htons w = [ucast (drop_bit 8 w), ucast w]"

text \<open>\<^verbatim>\<open>memcpy(&length, p, 4); length = ntohl(length)\<close> on the four bytes at \<open>p\<close>.\<close>

definition ntohl :: "byte list \<Rightarrow> 32 word" where
  "ntohl p = push_bit 24 (ucast (p ! 0)) OR push_bit 16 (ucast (p ! 1))
             OR push_bit 8 (ucast (p ! 2)) OR ucast (p ! 3)"

text \<open>
  \<^verbatim>\<open>strlen(p)\<close> and the string \<^verbatim>\<open>strcpy\<close>, \<^verbatim>\<open>strcmp\<close> and \<^verbatim>\<open>strdup\<close> see at \<open>p\<close>: the bytes
  before the first NUL. Where no NUL follows inside the modelled buffer, the C code
  runs past the array; the model stops at the end of the list.
\<close>

definition c_str :: "byte list \<Rightarrow> byte list" where
  "c_str p = takeWhile (\<lambda>b. b \<noteq> 0) p"

definition strlen :: "byte list \<Rightarrow> nat" where
  "strlen p = length (c_str p)"

section \<open>Protocol constants\<close>

text \<open>
  Modelled from the spec: the \<^verbatim>\<open>PqMsg_*\<close> and \<^verbatim>\<open>AUTH_REQ_OK\<close> macros used by pg_server.c
  come from PostgreSQL's \<^verbatim>\<open>libpq/protocol.h\<close>, which is not part of the repository. Their
  values are the type bytes of the response table of the specification (section 4.5) and
  of its literal scenarios, and agree with the \<^verbatim>\<open>PG_MSG_*\<close> macros of pg_protocol.h below.
\<close>

definition PqMsg_Query :: byte where "PqMsg_Query = of_char CHR ''Q''"
definition PqMsg_Parse :: byte where "PqMsg_Parse = of_char CHR ''P''"
definition PqMsg_Bind :: byte where "PqMsg_Bind = of_char CHR ''B''"
definition PqMsg_Execute :: byte where "PqMsg_Execute = of_char CHR ''E''"
definition PqMsg_Describe :: byte where "PqMsg_Describe = of_char CHR ''D''"
definition PqMsg_Sync :: byte where "PqMsg_Sync = of_char CHR ''S''"
definition PqMsg_Terminate :: byte where "PqMsg_Terminate = of_char CHR ''X''"
definition PqMsg_AuthenticationRequest :: byte where
  "PqMsg_AuthenticationRequest = of_char CHR ''R''"
definition PqMsg_ParameterStatus :: byte where "PqMsg_ParameterStatus = of_char CHR ''S''"
definition PqMsg_BackendKeyData :: byte where "PqMsg_BackendKeyData = of_char CHR ''K''"
definition PqMsg_ReadyForQuery :: byte where "PqMsg_ReadyForQuery = of_char CHR ''Z''"
definition PqMsg_EmptyQueryResponse :: byte where
  "PqMsg_EmptyQueryResponse = of_char CHR ''I''"
definition PqMsg_CommandComplete :: byte where "PqMsg_CommandComplete = of_char CHR ''C''"
definition PqMsg_ErrorResponse :: byte where "PqMsg_ErrorResponse = of_char CHR ''E''"
definition PqMsg_NoData :: byte where "PqMsg_NoData = of_char CHR ''n''"
definition PqMsg_BindComplete :: byte where "PqMsg_BindComplete = of_char CHR ''2''"
definition PqMsg_ParseComplete :: byte where "PqMsg_ParseComplete = of_char CHR ''1''"
definition AUTH_REQ_OK :: byte where "AUTH_REQ_OK = 0"

text \<open>pg_protocol.h.\<close>

definition PG_MSG_AUTHENTICATION :: byte where "PG_MSG_AUTHENTICATION = of_char CHR ''R''"
definition PG_MSG_ERROR_RESPONSE :: byte where "PG_MSG_ERROR_RESPONSE = of_char CHR ''E''"
definition PG_MSG_NOTICE_RESPONSE :: byte where "PG_MSG_NOTICE_RESPONSE = of_char CHR ''N''"
definition PG_MSG_READY_FOR_QUERY :: byte where "PG_MSG_READY_FOR_QUERY = of_char CHR ''Z''"
definition PG_MSG_ROW_DESCRIPTION :: byte where "PG_MSG_ROW_DESCRIPTION = of_char CHR ''T''"
definition PG_MSG_DATA_ROW :: byte where "PG_MSG_DATA_ROW = of_char CHR ''D''"
definition PG_MSG_COMMAND_COMPLETE :: byte where
  "PG_MSG_COMMAND_COMPLETE = of_char CHR ''C''"
definition PG_MSG_PARAMETER_STATUS :: byte where
  "PG_MSG_PARAMETER_STATUS = of_char CHR ''S''"
definition PG_MSG_BACKEND_KEY_DATA :: byte where
  "PG_MSG_BACKEND_KEY_DATA = of_char CHR ''K''"
definition PG_AUTH_OK :: "32 word" where "PG_AUTH_OK = 0"
definition PG_TXN_IDLE :: byte where "PG_TXN_IDLE = of_char CHR ''I''"
definition PG_TXN_TRANSACTION :: byte where "PG_TXN_TRANSACTION = of_char CHR ''T''"
definition PG_TXN_FAILED :: byte where "PG_TXN_FAILED = of_char CHR ''E''"
definition PG_ERR_SEVERITY :: byte where "PG_ERR_SEVERITY = of_char CHR ''S''"
definition PG_ERR_CODE :: byte where "PG_ERR_CODE = of_char CHR ''C''"
definition PG_ERR_MESSAGE :: byte where "PG_ERR_MESSAGE = of_char CHR ''M''"

section \<open>The socket\<close>

text \<open>
  The socket behind a file descriptor: \<open>wire\<close> holds the byte strings the kernel has
  accepted from \<^verbatim>\<open>send\<close> and \<^verbatim>\<open>write\<close>, oldest first, one entry per call; \<open>peer_gone\<close>
  says that the calls fail. A successful call takes all its bytes and returns their
  number; a failed one transmits nothing and returns \<open>-1\<close>.
\<close>

record sock =
  wire :: "byte list list"
  peer_gone :: bool

definition send :: "sock \<Rightarrow> byte list \<Rightarrow> sock \<times> int" where
  "send s bs = (if peer_gone s then (s, - 1)
                else (s\<lparr>wire := wire s @ [bs]\<rparr>, int (length bs)))"

section \<open>pg_protocol.c: the response builder\<close>

text \<open>
  \<^verbatim>\<open>pg_send_message(client_fd, type, buffer, length)\<close>: the pair (buffer, length) is the
  list \<open>buffer\<close>. \<^verbatim>\<open>total_length\<close> is an \<^verbatim>\<open>int32_t\<close>; its wrap-around is the word's. The
  result of \<^verbatim>\<open>write\<close> is compared with \<^verbatim>\<open>total_length + 1\<close>.
\<close>

definition pg_send_message :: "sock \<Rightarrow> byte \<Rightarrow> byte list \<Rightarrow> sock \<times> int" where
  "pg_send_message s type buffer =
     (let total_length = (word_of_nat (length buffer) + 4 :: 32 word);
          message = [type] @ htonl total_length @ buffer;
          (s', result) = send s message
      in (s', if result = sint total_length + 1 then 0 else - 1))"

definition pg_send_error :: "sock \<Rightarrow> byte list \<Rightarrow> byte list \<Rightarrow> sock \<times> int" where
  "pg_send_error s code message =
     pg_send_message s PG_MSG_ERROR_RESPONSE
       ([PG_ERR_SEVERITY] @ ascii ''ERROR'' @ [0]
        @ [PG_ERR_CODE] @ c_str code @ [0]
        @ [PG_ERR_MESSAGE] @ c_str message @ [0]
        @ [0])"

definition pg_send_auth_request :: "sock \<Rightarrow> 32 word \<Rightarrow> sock \<times> int" where
  "pg_send_auth_request s auth_type = pg_send_message s PG_MSG_AUTHENTICATION (htonl auth_type)"

definition pg_send_auth_ok :: "sock \<Rightarrow> sock \<times> int" where
  "pg_send_auth_ok s = pg_send_auth_request s PG_AUTH_OK"

definition pg_send_ready_for_query :: "sock \<Rightarrow> byte \<Rightarrow> sock \<times> int" where
  "pg_send_ready_for_query s status = pg_send_message s PG_MSG_READY_FOR_QUERY [status]"

text \<open>
  One field description of RowDescription: name, table OID 0, column number 0, type OID
  in network order, type size 0, type modifier 0, format code 0.
\<close>

definition row_description_field :: "byte list \<times> 32 word \<Rightarrow> byte list" where
  "row_description_field f =
     c_str (fst f) @ [0] @ [0, 0, 0, 0] @ [0, 0] @ htonl (snd f) @ [0, 0] @ [0, 0, 0, 0] @ [0, 0]"

definition pg_send_row_description :: "sock \<Rightarrow> (byte list \<times> 32 word) list \<Rightarrow> sock \<times> int" where
  "pg_send_row_description s fs =
     pg_send_message s PG_MSG_ROW_DESCRIPTION
       (htons (word_of_nat (length fs)) @ concat (map row_description_field fs))"

text \<open>One column of DataRow: \<open>None\<close> is the NULL pointer, sent as length \<open>-1\<close>.\<close>

definition data_row_field :: "byte list option \<Rightarrow> byte list" where
  "data_row_field v = (case v of None \<Rightarrow> htonl (- 1)
                       | Some bs \<Rightarrow> htonl (word_of_nat (length bs)) @ bs)"

definition pg_send_data_row :: "sock \<Rightarrow> byte list option list \<Rightarrow> sock \<times> int" where
  "pg_send_data_row s vals =
     pg_send_message s PG_MSG_DATA_ROW
       (htons (word_of_nat (length vals)) @ concat (map data_row_field vals))"

definition pg_send_command_complete :: "sock \<Rightarrow> byte list \<Rightarrow> sock \<times> int" where
  "pg_send_command_complete s tag = pg_send_message s PG_MSG_COMMAND_COMPLETE (c_str tag @ [0])"

definition pg_send_parameter_status :: "sock \<Rightarrow> byte list \<Rightarrow> byte list \<Rightarrow> sock \<times> int" where
  "pg_send_parameter_status s name val =
     pg_send_message s PG_MSG_PARAMETER_STATUS (c_str name @ [0] @ c_str val @ [0])"

definition pg_send_backend_key_data :: "sock \<Rightarrow> 32 word \<Rightarrow> 32 word \<Rightarrow> sock \<times> int" where
  "pg_send_backend_key_data s pid key =
     pg_send_message s PG_MSG_BACKEND_KEY_DATA (htonl pid @ htonl key)"

section \<open>pg_server.h: sessions, callbacks, the server\<close>

text \<open>
  \<^verbatim>\<open>struct PGClientConn\<close>. The fields \<^verbatim>\<open>ssl\<close>, \<^verbatim>\<open>user_data\<close> and \<^verbatim>\<open>server\<close> are never read by
  the modelled code and are left out; \<open>conn\<close> is the socket behind \<open>fd\<close>.
\<close>

record PGClientConn =
  fd :: "32 word"
  user :: "byte list option"
  database :: "byte list option"
  authenticated :: bool
  txn_status :: byte
  backend_pid :: "32 word"
  secret_key :: "32 word"
  conn :: sock

text \<open>
  \<^verbatim>\<open>PGCallbacks\<close>: one function pointer per message variant. A callback gets the session
  and returns it updated, with its \<^verbatim>\<open>int\<close> result.
\<close>

record PGCallbacks =
  startup :: "PGClientConn \<Rightarrow> byte list \<Rightarrow> int \<Rightarrow> PGClientConn \<times> int"
  query :: "PGClientConn \<Rightarrow> byte list \<Rightarrow> PGClientConn \<times> int"
  password :: "PGClientConn \<Rightarrow> byte list \<Rightarrow> PGClientConn \<times> int"
  terminate :: "PGClientConn \<Rightarrow> PGClientConn \<times> int"
  sync :: "PGClientConn \<Rightarrow> PGClientConn \<times> int"
  describe :: "PGClientConn \<Rightarrow> byte \<Rightarrow> byte list \<Rightarrow> PGClientConn \<times> int"
  bind_cb :: "PGClientConn \<Rightarrow> byte list \<Rightarrow> int \<Rightarrow> PGClientConn \<times> int"
  execute :: "PGClientConn \<Rightarrow> byte list \<Rightarrow> int \<Rightarrow> PGClientConn \<times> int"
  parse :: "PGClientConn \<Rightarrow> byte list \<Rightarrow> byte list option \<Rightarrow> int \<Rightarrow> PGClientConn \<times> int"
  cancel :: "PGClientConn \<Rightarrow> 32 word \<Rightarrow> 32 word \<Rightarrow> PGClientConn \<times> int"
  ssl_request :: "PGClientConn \<Rightarrow> PGClientConn \<times> int"
  unknown :: "PGClientConn \<Rightarrow> byte \<Rightarrow> byte list \<Rightarrow> int \<Rightarrow> PGClientConn \<times> int"

text \<open>
  \<^verbatim>\<open>PGServerConfig\<close> (only \<^verbatim>\<open>max_connections\<close> is read by the modelled code) and
  \<^verbatim>\<open>struct PGServer\<close>. The array \<^verbatim>\<open>clients\<close> is a list of slots, \<open>None\<close> the NULL pointer. A
  session is allocated once and stored in one slot, so the pointer to a session is
  represented by the index of its slot.
\<close>

record PGServerConfig =
  max_connections :: int

record PGServer =
  config :: PGServerConfig
  clients :: "PGClientConn option list"
  num_clients :: int
  running :: bool
  callbacks :: PGCallbacks

section \<open>pg_server.c: startup messages and default callbacks\<close>

definition startup_parameters :: "(byte list \<times> byte list) list" where
  "startup_parameters =
     [(ascii ''server_version'', ascii ''14.0''),
      (ascii ''client_encoding'', ascii ''UTF8''),
      (ascii ''server_encoding'', ascii ''UTF8''),
      (ascii ''DateStyle'', ascii ''ISO, MDY'')]"

text \<open>
  The ParameterStatus loop of \<^verbatim>\<open>pg_server_send_startup_messages\<close>: \<^verbatim>\<open>len\<close> counts the whole
  message, the length field holds \<^verbatim>\<open>len - 1\<close>, and \<^verbatim>\<open>len\<close> bytes are sent.
\<close>

fun send_parameter_status_loop :: "sock \<Rightarrow> (byte list \<times> byte list) list \<Rightarrow> sock \<times> int" where
  "send_parameter_status_loop s [] = (s, 0)"
| "send_parameter_status_loop s (nv # rest) =
     (let len = 4 + 1 + strlen (fst nv) + 1 + strlen (snd nv) + 1;
          msg = [PqMsg_ParameterStatus] @ htonl (word_of_nat len - 1)
                @ c_str (fst nv) @ [0] @ c_str (snd nv) @ [0];
          (s', r) = send s (take len msg)
      in if r < 0 then (s', - 1) else send_parameter_status_loop s' rest)"

definition pg_server_send_startup_messages :: "PGClientConn \<Rightarrow> PGClientConn \<times> int" where
  "pg_server_send_startup_messages client =
     (let auth_ok = [PqMsg_AuthenticationRequest, 0, 0, 0, 8, 0, 0, 0, 0];
          (s1, r1) = send (conn client) auth_ok
      in if r1 < 0 then (client\<lparr>conn := s1\<rparr>, - 1)
         else let (s2, r2) = send_parameter_status_loop s1 startup_parameters
         in if r2 < 0 then (client\<lparr>conn := s2\<rparr>, - 1)
         else let key_data = [PqMsg_BackendKeyData, 0, 0, 0, 12]
                             @ htonl (backend_pid client) @ htonl (secret_key client);
                  (s3, r3) = send s2 key_data
         in if r3 < 0 then (client\<lparr>conn := s3\<rparr>, - 1)
         else let ready = [PqMsg_ReadyForQuery, 0, 0, 0, 5, of_char CHR ''I''];
                  (s4, r4) = send s3 ready
         in if r4 < 0 then (client\<lparr>conn := s4\<rparr>, - 1)
         else (client\<lparr>conn := s4\<rparr>, 0))"

text \<open>
  The parameter loop of \<^verbatim>\<open>pg_default_startup_callback\<close>; \<open>p\<close> is the offset of the pointer
  \<^verbatim>\<open>p\<close> in \<open>buffer\<close>, \<open>len\<close> the argument \<^verbatim>\<open>length\<close>.
\<close>

function startup_loop :: "byte list \<Rightarrow> int \<Rightarrow> nat \<Rightarrow> PGClientConn \<Rightarrow> PGClientConn" where
  "startup_loop buffer len p client =
     (if int p < len then
        (if c_str (drop p buffer) = [] then client
         else startup_loop buffer len
                (p + strlen (drop p buffer) + 1
                   + strlen (drop (p + strlen (drop p buffer) + 1) buffer) + 1)
                (if c_str (drop p buffer) = ascii ''user''
                 then client\<lparr>user :=
                        Some (c_str (drop (p + strlen (drop p buffer) + 1) buffer))\<rparr>
                 else if c_str (drop p buffer) = ascii ''database''
                 then client\<lparr>database :=
                        Some (c_str (drop (p + strlen (drop p buffer) + 1) buffer))\<rparr>
                 else client))
      else client)"
  by pat_completeness auto
termination
  by (relation "measure (\<lambda>(buffer, len, p, client). nat (len - int p))") auto

declare startup_loop.simps [simp del]

definition pg_default_startup_callback ::
  "PGClientConn \<Rightarrow> byte list \<Rightarrow> int \<Rightarrow> PGClientConn \<times> int" where
  "pg_default_startup_callback client buffer len =
     pg_server_send_startup_messages (startup_loop buffer len 8 client)"

definition pg_default_query_callback :: "PGClientConn \<Rightarrow> byte list \<Rightarrow> PGClientConn \<times> int" where
  "pg_default_query_callback client q =
     (let empty_response = [PqMsg_EmptyQueryResponse, 0, 0, 0, 4, 0];
          (s, r) = send (conn client) (take 5 empty_response)
      in (client\<lparr>conn := s\<rparr>, r))"

definition pg_default_password_callback :: "PGClientConn \<Rightarrow> byte list \<Rightarrow> PGClientConn \<times> int" where
  "pg_default_password_callback client pw =
     (let auth_ok = [PqMsg_AuthenticationRequest, 0, 0, 0, 8, 0, 0, 0, AUTH_REQ_OK];
          (s, r) = send (conn client) auth_ok
      in (client\<lparr>conn := s\<rparr>, r))"

definition pg_default_terminate_callback :: "PGClientConn \<Rightarrow> PGClientConn \<times> int" where
  "pg_default_terminate_callback client = (client, 0)"

definition pg_default_sync_callback :: "PGClientConn \<Rightarrow> PGClientConn \<times> int" where
  "pg_default_sync_callback client =
     (let ready = [PqMsg_ReadyForQuery, 0, 0, 0, 5, of_char CHR ''I''];
          (s, r) = send (conn client) ready
      in (client\<lparr>conn := s\<rparr>, r))"

definition pg_default_describe_callback ::
  "PGClientConn \<Rightarrow> byte \<Rightarrow> byte list \<Rightarrow> PGClientConn \<times> int" where
  "pg_default_describe_callback client describe_type name =
     (let no_data = [PqMsg_NoData, 0, 0, 0, 4];
          (s, r) = send (conn client) no_data
      in (client\<lparr>conn := s\<rparr>, r))"

definition pg_default_bind_callback ::
  "PGClientConn \<Rightarrow> byte list \<Rightarrow> int \<Rightarrow> PGClientConn \<times> int" where
  "pg_default_bind_callback client data len =
     (let bind_complete = [PqMsg_BindComplete, 0, 0, 0, 4];
          (s, r) = send (conn client) bind_complete
      in (client\<lparr>conn := s\<rparr>, r))"

definition pg_default_execute_callback ::
  "PGClientConn \<Rightarrow> byte list \<Rightarrow> int \<Rightarrow> PGClientConn \<times> int" where
  "pg_default_execute_callback client portal max_rows =
     (let empty_response = [PqMsg_EmptyQueryResponse, 0, 0, 0, 4];
          (s1, r1) = send (conn client) empty_response
      in if r1 < 0 then (client\<lparr>conn := s1\<rparr>, - 1)
         else let command_complete = [PqMsg_CommandComplete, 0, 0, 0, 5, 0];
                  (s2, r2) = send s1 command_complete
         in (client\<lparr>conn := s2\<rparr>, r2))"

definition pg_default_parse_callback ::
  "PGClientConn \<Rightarrow> byte list \<Rightarrow> byte list option \<Rightarrow> int \<Rightarrow> PGClientConn \<times> int" where
  "pg_default_parse_callback client q stmt_name num_params =
     (let parse_complete = [PqMsg_ParseComplete, 0, 0, 0, 4];
          (s, r) = send (conn client) parse_complete
      in (client\<lparr>conn := s\<rparr>, r))"

definition pg_default_cancel_callback ::
  "PGClientConn \<Rightarrow> 32 word \<Rightarrow> 32 word \<Rightarrow> PGClientConn \<times> int" where
  "pg_default_cancel_callback client pid key = (client, 0)"

definition pg_default_ssl_request_callback :: "PGClientConn \<Rightarrow> PGClientConn \<times> int" where
  "pg_default_ssl_request_callback client =
     (let reject_ssl = of_char CHR ''N'';
          (s, r) = send (conn client) [reject_ssl]
      in (client\<lparr>conn := s\<rparr>, r))"

definition error_msg :: "byte list" where
  "error_msg =
     [PqMsg_ErrorResponse,
      0, 0, 0, 85]
     @ ascii ''SERROR'' @ [0]
     @ ascii ''C42601'' @ [0]
     @ ascii ''MUnknown '' @ ascii ''message '' @ ascii ''type'' @ [0]
     @ [0]"

definition pg_default_unknown_callback ::
  "PGClientConn \<Rightarrow> byte \<Rightarrow> byte list \<Rightarrow> int \<Rightarrow> PGClientConn \<times> int" where
  "pg_default_unknown_callback client msg_type data len =
     (let (s1, r1) = send (conn client) error_msg
      in if r1 < 0 then (client\<lparr>conn := s1\<rparr>, - 1)
         else let ready = [PqMsg_ReadyForQuery, 0, 0, 0, 5, of_char CHR ''I''];
                  (s2, r2) = send s1 ready
         in (client\<lparr>conn := s2\<rparr>, r2))"

text \<open>
  The table \<^verbatim>\<open>pg_server_create\<close> installs. The wrappers of pg_protocol_logging.c, which
  \<^verbatim>\<open>main\<close> installs over it, write to the log, call these functions and return their
  results.
\<close>

definition default_callbacks :: PGCallbacks where
  "default_callbacks =
     \<lparr>startup = pg_default_startup_callback,
      query = pg_default_query_callback,
      password = pg_default_password_callback,
      terminate = pg_default_terminate_callback,
      sync = pg_default_sync_callback,
      describe = pg_default_describe_callback,
      bind_cb = pg_default_bind_callback,
      execute = pg_default_execute_callback,
      parse = pg_default_parse_callback,
      cancel = pg_default_cancel_callback,
      ssl_request = pg_default_ssl_request_callback,
      unknown = pg_default_unknown_callback\<rparr>"

section \<open>pg_server.c: the server\<close>

definition BUFFER_SIZE :: nat where
  "BUFFER_SIZE = 8192"

definition pg_server_create :: "PGServerConfig \<Rightarrow> PGServer" where
  "pg_server_create cfg =
     \<lparr>config = cfg,
      clients = replicate (nat (max_connections cfg)) None,
      num_clients = 0,
      running = False,
      callbacks = default_callbacks\<rparr>"


text \<open>
  \<^verbatim>\<open>pg_server_handle_client\<close>. The outcome of \<^verbatim>\<open>recv\<close> is an argument: \<open>buffer\<close> is the
  array \<^verbatim>\<open>char buffer[BUFFER_SIZE]\<close> after the call (the bytes received, then whatever the
  stack held) and \<open>bytes_read\<close> its result. One message is dispatched per call, on the
  first byte of the buffer. \<^verbatim>\<open>length\<close> is an \<^verbatim>\<open>int32_t\<close>, and \<^verbatim>\<open>length - 4\<close> is computed in
  32 bits.
\<close>

definition pg_server_handle_client ::
  "PGServer \<Rightarrow> PGClientConn \<Rightarrow> byte list \<Rightarrow> int \<Rightarrow> PGClientConn \<times> int" where
  "pg_server_handle_client server client buffer bytes_read =
     (if bytes_read \<le> 0 then (client, - 1)
      else let msg_type = buffer ! 0;
               len = ntohl (drop 1 buffer)
      in if msg_type = 0 then startup (callbacks server) client buffer bytes_read
         else if msg_type = PqMsg_Query then query (callbacks server) client (drop 5 buffer)
         else if msg_type = PqMsg_Parse
           then parse (callbacks server) client (drop 5 buffer) None 0
         else if msg_type = PqMsg_Bind
           then bind_cb (callbacks server) client (drop 5 buffer) (sint (len - 4))
         else if msg_type = PqMsg_Execute
           then execute (callbacks server) client (drop 5 buffer) 0
         else if msg_type = PqMsg_Describe
           then describe (callbacks server) client (buffer ! 5) (drop 6 buffer)
         else if msg_type = PqMsg_Sync then sync (callbacks server) client
         else if msg_type = PqMsg_Terminate then terminate (callbacks server) client
         else unknown (callbacks server) client msg_type (drop 5 buffer) (sint (len - 4)))"

text \<open>The slot search of \<^verbatim>\<open>pg_server_add_client\<close>, from index \<open>i\<close>.\<close>

function find_empty_slot :: "PGServer \<Rightarrow> nat \<Rightarrow> nat option" where
  "find_empty_slot server i =
     (if int i < max_connections (config server)
      then (if clients server ! i = None then Some i else find_empty_slot server (Suc i))
      else None)"
  by pat_completeness auto
termination
  by (relation "measure (\<lambda>(server, i). nat (max_connections (config server) - int i))") auto

declare find_empty_slot.simps [simp del]

text \<open>
  \<^verbatim>\<open>pg_server_add_client\<close>. The results of \<^verbatim>\<open>getpid()\<close> and \<^verbatim>\<open>rand()\<close> are arguments. A
  refused descriptor is closed and no session is stored.
\<close>

definition pg_server_add_client ::
  "32 word \<Rightarrow> 32 word \<Rightarrow> PGServer \<Rightarrow> 32 word \<Rightarrow> PGServer \<times> int" where
  "pg_server_add_client getpid rand server client_fd =
     (if num_clients server \<ge> max_connections (config server) then (server, - 1)
      else let client = \<lparr>fd = client_fd, user = None, database = None,
                         authenticated = False,
                         txn_status = of_char CHR ''I'',
                         backend_pid = getpid + client_fd,
                         secret_key = rand,
                         conn = \<lparr>wire = [], peer_gone = False\<rparr>\<rparr>
      in case find_empty_slot server 0 of
           Some i \<Rightarrow> (server\<lparr>clients := (clients server)[i := Some client],
                              num_clients := num_clients server + 1\<rparr>, 0)
         | None \<Rightarrow> (server, - 1))"

text \<open>
  \<^verbatim>\<open>pg_server_remove_client\<close>; \<open>i\<close> is the slot of the session to remove, which is the slot
  the search for its pointer finds. The descriptor is closed and the session freed.
\<close>

definition pg_server_remove_client :: "PGServer \<Rightarrow> nat \<Rightarrow> PGServer \<times> int" where
  "pg_server_remove_client server i =
     (if int i < max_connections (config server) \<and> i < length (clients server)
         \<and> clients server ! i \<noteq> None
      then (server\<lparr>clients := (clients server)[i := None],
                   num_clients := num_clients server - 1\<rparr>, 0)
      else (server, - 1))"

text \<open>
  The body of the second loop of \<^verbatim>\<open>pg_server_run\<close> for slot \<open>i\<close>, when its descriptor is
  readable: the session is removed exactly when \<^verbatim>\<open>pg_server_handle_client\<close> returns a
  negative value.
\<close>

definition pg_server_run_client :: "PGServer \<Rightarrow> nat \<Rightarrow> byte list \<Rightarrow> int \<Rightarrow> PGServer" where
  "pg_server_run_client server i buffer bytes_read =
     (if i < length (clients server) then
        (case clients server ! i of
           None \<Rightarrow> server
         | Some client \<Rightarrow>
             (let (client', rc) = pg_server_handle_client server client buffer bytes_read;
                  server' = server\<lparr>clients := (clients server)[i := Some client']\<rparr>
              in if rc < 0 then fst (pg_server_remove_client server' i) else server'))
      else server)"

definition pg_server_stop :: "PGServer \<Rightarrow> PGServer" where
  "pg_server_stop server =
     fold (\<lambda>i s. if clients s ! i \<noteq> None then fst (pg_server_remove_client s i) else s)
       [0 ..< nat (max_connections (config server))]
       (server\<lparr>running := False\<rparr>)"

text \<open>
  The states \<^verbatim>\<open>pg_server_run\<close> reaches from \<^verbatim>\<open>pg_server_create\<close>, for a process with
  identifier \<open>getpid\<close>. \<^verbatim>\<open>accept\<close> returns a descriptor that is not open in the process, and
  the descriptor of a stored session stays open until \<^verbatim>\<open>pg_server_remove_client\<close> closes
  it: the descriptor of a new connection differs from those of the stored sessions.
\<close>

definition fd_unused :: "PGServer \<Rightarrow> 32 word \<Rightarrow> bool" where
  "fd_unused server client_fd =
     list_all (\<lambda>slot. case slot of None \<Rightarrow> True | Some c \<Rightarrow> fd c \<noteq> client_fd) (clients server)"

inductive reachable :: "32 word \<Rightarrow> PGServer \<Rightarrow> bool" for getpid :: "32 word" where
  created: "reachable getpid (pg_server_create cfg)"
| accepted: "reachable getpid server \<Longrightarrow> fd_unused server client_fd \<Longrightarrow>
     reachable getpid (fst (pg_server_add_client getpid rand server client_fd))"
| readable: "reachable getpid server \<Longrightarrow>
     reachable getpid (pg_server_run_client server i buffer bytes_read)"
| stopped: "reachable getpid server \<Longrightarrow> reachable getpid (pg_server_stop server)"

text \<open>The sessions of the live-session table, with their slots.\<close>

definition live :: "PGServer \<Rightarrow> nat \<Rightarrow> PGClientConn option" where
  "live server i = (if i < length (clients server) then clients server ! i else None)"

section \<open>pg_query.c: the simple-query handler\<close>

datatype QueryType =
  QUERY_SELECT | QUERY_INSERT | QUERY_UPDATE | QUERY_DELETE | QUERY_BEGIN | QUERY_COMMIT
  | QUERY_ROLLBACK | QUERY_CREATE | QUERY_DROP | QUERY_ALTER | QUERY_UNKNOWN

text \<open>
  \<^verbatim>\<open>isspace\<close> and \<^verbatim>\<open>toupper\<close> of \<^verbatim>\<open>ctype.h\<close>, in the C locale: space, \<^verbatim>\<open>\t \n \v \f \r\<close>; the
  letters a to z.
\<close>

definition isspace :: "byte \<Rightarrow> bool" where
  "isspace c = (c = 32 \<or> (9 \<le> c \<and> c \<le> 13))"

definition toupper :: "byte \<Rightarrow> byte" where
  "toupper c = (if 97 \<le> c \<and> c \<le> 122 then c - 32 else c)"

text \<open>The two loops of \<^verbatim>\<open>pg_get_query_type\<close>; \<open>i\<close> is the index into \<^verbatim>\<open>first_word[16]\<close>.\<close>

fun skip_space :: "byte list \<Rightarrow> byte list" where
  "skip_space [] = []"
| "skip_space (c # cs) = (if isspace c then skip_space cs else c # cs)"

fun first_word_loop :: "byte list \<Rightarrow> nat \<Rightarrow> byte list" where
  "first_word_loop [] i = []"
| "first_word_loop (c # cs) i =
     (if c \<noteq> 0 \<and> \<not> isspace c \<and> i < 15 then toupper c # first_word_loop cs (Suc i) else [])"

definition pg_get_query_type :: "byte list \<Rightarrow> QueryType" where
  "pg_get_query_type q =
     (let first_word = first_word_loop (skip_space q) 0
      in if first_word = ascii ''SELECT'' then QUERY_SELECT
         else if first_word = ascii ''INSERT'' then QUERY_INSERT
         else if first_word = ascii ''UPDATE'' then QUERY_UPDATE
         else if first_word = ascii ''DELETE'' then QUERY_DELETE
         else if first_word = ascii ''BEGIN'' then QUERY_BEGIN
         else if first_word = ascii ''COMMIT'' then QUERY_COMMIT
         else if first_word = ascii ''ROLLBACK'' then QUERY_ROLLBACK
         else if first_word = ascii ''CREATE'' then QUERY_CREATE
         else if first_word = ascii ''DROP'' then QUERY_DROP
         else if first_word = ascii ''ALTER'' then QUERY_ALTER
         else QUERY_UNKNOWN)"

text \<open>The handlers ignore the results of the \<^verbatim>\<open>pg_send_*\<close> calls.\<close>

definition pg_handle_select :: "PGClientConn \<Rightarrow> byte list \<Rightarrow> PGClientConn \<times> int" where
  "pg_handle_select client q =
     (let s1 = fst (pg_send_row_description (conn client)
                 [(ascii ''id'', 23), (ascii ''name'', 25), (ascii ''value'', 25)]);
          s2 = fst (pg_send_data_row s1
                 [Some (ascii ''1''), Some (ascii ''Row 1''), Some (ascii ''Value 1'')]);
          s3 = fst (pg_send_data_row s2
                 [Some (ascii ''2''), Some (ascii ''Row 2''), Some (ascii ''Value 2'')]);
          s4 = fst (pg_send_command_complete s3 (ascii ''SELECT 2''));
          s5 = fst (pg_send_ready_for_query s4 (txn_status client))
      in (client\<lparr>conn := s5\<rparr>, 0))"

definition pg_handle_insert :: "PGClientConn \<Rightarrow> byte list \<Rightarrow> PGClientConn \<times> int" where
  "pg_handle_insert client q =
     (let s1 = fst (pg_send_command_complete (conn client) (ascii ''INSERT 0 1''));
          s2 = fst (pg_send_ready_for_query s1 (txn_status client))
      in (client\<lparr>conn := s2\<rparr>, 0))"

definition pg_handle_update :: "PGClientConn \<Rightarrow> byte list \<Rightarrow> PGClientConn \<times> int" where
  "pg_handle_update client q =
     (let s1 = fst (pg_send_command_complete (conn client) (ascii ''UPDATE 1''));
          s2 = fst (pg_send_ready_for_query s1 (txn_status client))
      in (client\<lparr>conn := s2\<rparr>, 0))"

definition pg_handle_delete :: "PGClientConn \<Rightarrow> byte list \<Rightarrow> PGClientConn \<times> int" where
  "pg_handle_delete client q =
     (let s1 = fst (pg_send_command_complete (conn client) (ascii ''DELETE 1''));
          s2 = fst (pg_send_ready_for_query s1 (txn_status client))
      in (client\<lparr>conn := s2\<rparr>, 0))"

definition pg_handle_transaction ::
  "PGClientConn \<Rightarrow> byte list \<Rightarrow> QueryType \<Rightarrow> PGClientConn \<times> int" where
  "pg_handle_transaction client q type =
     (case type of
        QUERY_BEGIN \<Rightarrow>
          (let client1 = client\<lparr>txn_status := PG_TXN_TRANSACTION\<rparr>;
               s1 = fst (pg_send_command_complete (conn client1) (ascii ''BEGIN''));
               s2 = fst (pg_send_ready_for_query s1 (txn_status client1))
           in (client1\<lparr>conn := s2\<rparr>, 0))
      | QUERY_COMMIT \<Rightarrow>
          (let client1 = client\<lparr>txn_status := PG_TXN_IDLE\<rparr>;
               s1 = fst (pg_send_command_complete (conn client1) (ascii ''COMMIT''));
               s2 = fst (pg_send_ready_for_query s1 (txn_status client1))
           in (client1\<lparr>conn := s2\<rparr>, 0))
      | QUERY_ROLLBACK \<Rightarrow>
          (let client1 = client\<lparr>txn_status := PG_TXN_IDLE\<rparr>;
               s1 = fst (pg_send_command_complete (conn client1) (ascii ''ROLLBACK''));
               s2 = fst (pg_send_ready_for_query s1 (txn_status client1))
           in (client1\<lparr>conn := s2\<rparr>, 0))
      | _ \<Rightarrow> (client, - 1))"

text \<open>
  \<^verbatim>\<open>pg_default_query_callback\<close> as pg_query.c defines it (pg_server.c defines a function
  of the same name, modelled above).
\<close>

definition pg_default_query_callback_pg_query ::
  "PGClientConn \<Rightarrow> byte list \<Rightarrow> PGClientConn \<times> int" where
  "pg_default_query_callback_pg_query client q =
     (case pg_get_query_type q of
        QUERY_SELECT \<Rightarrow> pg_handle_select client q
      | QUERY_INSERT \<Rightarrow> pg_handle_insert client q
      | QUERY_UPDATE \<Rightarrow> pg_handle_update client q
      | QUERY_DELETE \<Rightarrow> pg_handle_delete client q
      | QUERY_BEGIN \<Rightarrow> pg_handle_transaction client q QUERY_BEGIN
      | QUERY_COMMIT \<Rightarrow> pg_handle_transaction client q QUERY_COMMIT
      | QUERY_ROLLBACK \<Rightarrow> pg_handle_transaction client q QUERY_ROLLBACK
      | _ \<Rightarrow>
          (let s1 = fst (pg_send_error (conn client) (ascii ''42601'')
                      (ascii ''Unsupported query type''));
               s2 = fst (pg_send_ready_for_query s1 (txn_status client))
           in (client\<lparr>conn := s2\<rparr>, - 1)))"

section \<open>pg_auth.c: the MD5 password hash\<close>

definition MD5_DIGEST_LENGTH :: nat where
  "MD5_DIGEST_LENGTH = 16"

definition hex_chars :: "byte list" where
  "hex_chars = ascii ''0123456789abcdef''"

text \<open>
  \<^verbatim>\<open>bin_to_hex(data, len, hex)\<close> writes into the array \<open>hex\<close> by index and returns it; the
  caller provides at least \<open>2 * len + 1\<close> bytes.
\<close>

function bin_to_hex_loop :: "byte list \<Rightarrow> nat \<Rightarrow> nat \<Rightarrow> byte list \<Rightarrow> byte list" where
  "bin_to_hex_loop data len i hex =
     (if i < len
      then bin_to_hex_loop data len (Suc i)
             (hex[i * 2 := hex_chars ! unat (drop_bit 4 (data ! i) AND 0xF),
                  i * 2 + 1 := hex_chars ! unat (data ! i AND 0xF)])
      else hex)"
  by pat_completeness auto
termination
  by (relation "measure (\<lambda>(data, len, i, hex). len - i)") auto

declare bin_to_hex_loop.simps [simp del]

definition bin_to_hex :: "byte list \<Rightarrow> nat \<Rightarrow> byte list \<Rightarrow> byte list" where
  "bin_to_hex data len hex = (bin_to_hex_loop data len 0 hex)[len * 2 := 0]"

text \<open>
  OpenSSL's \<^verbatim>\<open>MD5_Init\<close>, \<^verbatim>\<open>MD5_Update\<close> and \<^verbatim>\<open>MD5_Final\<close> are not part of the repository.
  The digest function is a parameter \<open>digest\<close>; a context holds the bytes absorbed so
  far, and \<^verbatim>\<open>MD5_Final\<close> stores the digest of all of them.
\<close>

type_synonym MD5_CTX = "byte list"

definition MD5_Init :: MD5_CTX where
  "MD5_Init = []"

definition MD5_Update :: "MD5_CTX \<Rightarrow> byte list \<Rightarrow> nat \<Rightarrow> MD5_CTX" where
  "MD5_Update ctx data len = ctx @ take len data"

definition MD5_Final :: "(byte list \<Rightarrow> byte list) \<Rightarrow> MD5_CTX \<Rightarrow> byte list" where
  "MD5_Final digest ctx = digest ctx"

text \<open>\<^verbatim>\<open>strcpy(dst, src)\<close>: the string at \<open>src\<close> and its NUL overwrite the start of \<open>dst\<close>.\<close>

definition strcpy :: "byte list \<Rightarrow> byte list \<Rightarrow> byte list" where
  "strcpy dst src = c_str src @ [0] @ drop (strlen src + 1) dst"

text \<open>
  \<^verbatim>\<open>pg_md5_hash(password, username, salt, result)\<close> returns the array \<open>result\<close> (at least 36
  bytes). The local array \<^verbatim>\<open>hex[33]\<close> is written in full by \<^verbatim>\<open>bin_to_hex\<close> before it is
  read; it starts as zeros here.
\<close>

definition pg_md5_hash ::
  "(byte list \<Rightarrow> byte list) \<Rightarrow> byte list \<Rightarrow> byte list \<Rightarrow> byte list \<Rightarrow> byte list \<Rightarrow> byte list" where
  "pg_md5_hash digest pw username salt result =
     (let ctx1 = MD5_Update (MD5_Update MD5_Init pw (strlen pw))
                   username (strlen username);
          md5 = MD5_Final digest ctx1;
          hex = bin_to_hex md5 MD5_DIGEST_LENGTH (replicate (MD5_DIGEST_LENGTH * 2 + 1) 0);
          ctx2 = MD5_Update (MD5_Update MD5_Init hex (strlen hex)) salt (strlen salt);
          md5' = MD5_Final digest ctx2;
          result1 = strcpy result (ascii ''md5'')
      in take 3 result1 @ bin_to_hex md5' MD5_DIGEST_LENGTH (drop 3 result1))"

section \<open>Reading the wire\<close>

text \<open>
  A typed frame as the specification defines it (section 3): one type byte, a 32-bit
  length in network order that counts itself and the payload, then the payload.
\<close>

definition frame_type :: "byte list \<Rightarrow> byte" where
  "frame_type f = f ! 0"

definition frame_length :: "byte list \<Rightarrow> nat" where
  "frame_length f = unat (ntohl (drop 1 f))"

definition frame_payload :: "byte list \<Rightarrow> byte list" where
  "frame_payload f = drop 5 f"

definition length_consistent :: "byte list \<Rightarrow> bool" where
  "length_consistent f = (5 \<le> length f \<and> frame_length f = 4 + length (frame_payload f))"

text \<open>
  The fields of an ErrorResponse payload: (field code, string) pairs up to the NUL that
  ends the list.
\<close>

fun error_fields :: "byte list \<Rightarrow> (byte \<times> byte list) list" where
  "error_fields [] = []"
| "error_fields (code # rest) =
     (if code = 0 then []
      else (code, c_str rest) # error_fields (drop (strlen rest + 1) rest))"

definition sqlstate :: "byte list \<Rightarrow> byte list option" where
  "sqlstate f = map_of (error_fields (frame_payload f)) (of_char CHR ''C'')"

text \<open>
  The type bytes of the inbound message variants the specification names (sections 4.2
  and 4.3): a startup-class frame begins with the byte 0 of its length, and the typed
  messages are PasswordMessage \<^verbatim>\<open>p\<close>, Query \<^verbatim>\<open>Q\<close>, Parse \<^verbatim>\<open>P\<close>, Bind \<^verbatim>\<open>B\<close>, Describe
  \<^verbatim>\<open>D\<close>, Execute \<^verbatim>\<open>E\<close>, Close \<^verbatim>\<open>C\<close>, Sync \<^verbatim>\<open>S\<close>, Flush \<^verbatim>\<open>H\<close> and Terminate \<^verbatim>\<open>X\<close>.
\<close>

definition known_variant :: "byte \<Rightarrow> bool" where
  "known_variant t = (t \<in> set (0 # ascii ''pQPBDECSHX''))"

text \<open>
  The first white-space-delimited word of a query: the characters after the leading white
  space up to the next white space or the end of the string, compared without regard to
  case.
\<close>

definition first_word :: "byte list \<Rightarrow> byte list" where
  "first_word q = takeWhile (\<lambda>c. c \<noteq> 0 \<and> \<not> isspace c) (dropWhile isspace q)"

definition first_word_is :: "byte list \<Rightarrow> string \<Rightarrow> bool" where
  "first_word_is q w = (map toupper (first_word q) = ascii w)"

text \<open>The lowercase hexadecimal encoding of a byte string, two digits per byte.\<close>

definition hex_digit :: "nat \<Rightarrow> byte" where
  "hex_digit n = (if n < 10 then of_char CHR ''0'' + of_nat n
                  else of_char CHR ''a'' + of_nat (n - 10))"

definition lower_hex :: "byte list \<Rightarrow> byte list" where
  "lower_hex bs = concat (map (\<lambda>b. [hex_digit (unat b div 16), hex_digit (unat b mod 16)]) bs)"

section \<open>Example sessions and messages\<close>

text \<open>
  The array \<^verbatim>\<open>buffer\<close> after \<^verbatim>\<open>recv\<close> has stored \<open>msg\<close> at its start; \<open>stale\<close> fills the
  rest.
\<close>

definition recv_buffer :: "byte list \<Rightarrow> byte \<Rightarrow> byte list" where
  "recv_buffer msg stale = msg @ replicate (BUFFER_SIZE - length msg) stale"

definition cfg0 :: PGServerConfig where
  "cfg0 = \<lparr>max_connections = 2\<rparr>"

definition client0 :: PGClientConn where
  "client0 = \<lparr>fd = 5, user = None, database = None, authenticated = False,
     txn_status = PG_TXN_IDLE, backend_pid = 12350, secret_key = 42,
     conn = \<lparr>wire = [], peer_gone = False\<rparr>\<rparr>"


text \<open>A Flush message: its type byte \<^verbatim>\<open>H\<close> has no case in \<^verbatim>\<open>pg_server_handle_client\<close>.\<close>

definition flush_msg :: "byte list" where
  "flush_msg = [of_char CHR ''H'', 0, 0, 0, 4]"

text \<open>A message whose type byte \<^verbatim>\<open>0xFF\<close> is that of no message of the protocol.\<close>

definition unknown_msg :: "byte list" where
  "unknown_msg = [0xFF, 0, 0, 0, 4]"

definition query_msg :: "byte list" where
  "query_msg = [PqMsg_Query, 0, 0, 0, 13] @ ascii ''SELECT 1'' @ [0]"

definition terminate_msg :: "byte list" where
  "terminate_msg = [PqMsg_Terminate, 0, 0, 0, 4]"

text \<open>
  A CancelRequest for the session with process identifier 12350 and secret 42, and a
  StartupMessage of protocol version 2.0 with the parameter \<^verbatim>\<open>user=u\<close>.
\<close>

definition cancel_msg :: "byte list" where
  "cancel_msg = [0, 0, 0, 16] @ [0x04, 0xD2, 0x16, 0x2E] @ htonl 12350 @ htonl 42"

definition startup_msg_v2 :: "byte list" where
  "startup_msg_v2 =
     [0, 0, 0, 16] @ [0, 2, 0, 0] @ ascii ''user'' @ [0] @ ascii ''u'' @ [0] @ [0]"

text \<open>A second connection, fresh from \<^verbatim>\<open>accept\<close>.\<close>

definition client1 :: PGClientConn where
  "client1 = \<lparr>fd = 6, user = None, database = None, authenticated = False,
     txn_status = PG_TXN_IDLE, backend_pid = 12351, secret_key = 77,
     conn = \<lparr>wire = [], peer_gone = False\<rparr>\<rparr>"

text \<open>
  The seven frames of \<^verbatim>\<open>pg_server_send_startup_messages\<close>, byte by byte: AuthenticationOk,
  four ParameterStatus, BackendKeyData, ReadyForQuery.
\<close>

definition startup_reply :: "32 word \<Rightarrow> 32 word \<Rightarrow> byte list list" where
  "startup_reply pid key =
     [[PqMsg_AuthenticationRequest, 0, 0, 0, 8, 0, 0, 0, 0],
      [PqMsg_ParameterStatus, 0, 0, 0, 24]
        @ ascii ''server_version'' @ [0] @ ascii ''14.0'' @ [0],
      [PqMsg_ParameterStatus, 0, 0, 0, 25]
        @ ascii ''client_encoding'' @ [0] @ ascii ''UTF8'' @ [0],
      [PqMsg_ParameterStatus, 0, 0, 0, 25]
        @ ascii ''server_encoding'' @ [0] @ ascii ''UTF8'' @ [0],
      [PqMsg_ParameterStatus, 0, 0, 0, 23]
        @ ascii ''DateStyle'' @ [0] @ ascii ''ISO, MDY'' @ [0],
      [PqMsg_BackendKeyData, 0, 0, 0, 12] @ htonl pid @ htonl key,
      [PqMsg_ReadyForQuery, 0, 0, 0, 5, PG_TXN_IDLE]]"

text \<open>The text of a query that opens a transaction, in lower case behind two spaces.\<close>

definition begin_query :: "byte list" where
  "begin_query = ascii ''  begin transaction;'' @ [0]"

text \<open>The query \<^verbatim>\<open>BEGIN;\<close>, its semicolon attached to the word.\<close>

definition begin_semicolon_query :: "byte list" where
  "begin_semicolon_query = ascii ''BEGIN;'' @ [0]"




text \<open>
  The server of a process with identifier 12345 after it has accepted descriptor 5, and
  then descriptor 6, with \<^verbatim>\<open>rand()\<close> returning 42 both times.
\<close>

definition server1 :: PGServer where
  "server1 = fst (pg_server_add_client 12345 42 (pg_server_create cfg0) 5)"

definition server2 :: PGServer where
  "server2 = fst (pg_server_add_client 12345 42 server1 6)"

section \<open>The invariant of the live-session table\<close>

text \<open>
  The server keeps the default callbacks, the table has \<^verbatim>\<open>max_connections\<close> slots, every
  stored session has the process identifier plus its descriptor as backend identifier,
  and the descriptors of the stored sessions differ.
\<close>

definition server_inv :: "32 word \<Rightarrow> PGServer \<Rightarrow> bool" where
  "server_inv getpid s =
     (callbacks s = default_callbacks
      \<and> length (clients s) = nat (max_connections (config s))
      \<and> (\<forall>i c. live s i = Some c \<longrightarrow> backend_pid c = getpid + fd c)
      \<and> (\<forall>i j a b. live s i = Some a \<longrightarrow> live s j = Some b \<longrightarrow> i \<noteq> j \<longrightarrow> fd a \<noteq> fd b))"

section \<open>MD5\<close>

text \<open>
  The digest of RFC 1321, which OpenSSL's \<^verbatim>\<open>MD5_Final\<close> computes: the example digest for
  \<open>pg_md5_hash\<close>. The message is padded to whole 64-byte blocks, and \<open>md5_blocks\<close> folds
  the compression function over them.
\<close>

definition md5_K :: "32 word list" where
  "md5_K =
     [0xd76aa478, 0xe8c7b756, 0x242070db, 0xc1bdceee, 0xf57c0faf, 0x4787c62a,
      0xa8304613, 0xfd469501, 0x698098d8, 0x8b44f7af, 0xffff5bb1, 0x895cd7be,
      0x6b901122, 0xfd987193, 0xa679438e, 0x49b40821, 0xf61e2562, 0xc040b340,
      0x265e5a51, 0xe9b6c7aa, 0xd62f105d, 0x02441453, 0xd8a1e681, 0xe7d3fbc8,
      0x21e1cde6, 0xc33707d6, 0xf4d50d87, 0x455a14ed, 0xa9e3e905, 0xfcefa3f8,
      0x676f02d9, 0x8d2a4c8a, 0xfffa3942, 0x8771f681, 0x6d9d6122, 0xfde5380c,
      0xa4beea44, 0x4bdecfa9, 0xf6bb4b60, 0xbebfbc70, 0x289b7ec6, 0xeaa127fa,
      0xd4ef3085, 0x04881d05, 0xd9d4d039, 0xe6db99e5, 0x1fa27cf8, 0xc4ac5665,
      0xf4292244, 0x432aff97, 0xab9423a7, 0xfc93a039, 0x655b59c3, 0x8f0ccc92,
      0xffeff47d, 0x85845dd1, 0x6fa87e4f, 0xfe2ce6e0, 0xa3014314, 0x4e0811a1,
      0xf7537e82, 0xbd3af235, 0x2ad7d2bb, 0xeb86d391]"

definition md5_s :: "nat list" where
  "md5_s =
     [7, 12, 17, 22, 7, 12, 17, 22, 7, 12, 17, 22, 7, 12, 17, 22,
      5, 9, 14, 20, 5, 9, 14, 20, 5, 9, 14, 20, 5, 9, 14, 20,
      4, 11, 16, 23, 4, 11, 16, 23, 4, 11, 16, 23, 4, 11, 16, 23,
      6, 10, 15, 21, 6, 10, 15, 21, 6, 10, 15, 21, 6, 10, 15, 21]"

definition rotl32 :: "32 word \<Rightarrow> nat \<Rightarrow> 32 word" where
  "rotl32 x n = push_bit n x OR drop_bit (32 - n) x"

definition le32 :: "32 word \<Rightarrow> byte list" where
  "le32 w = [ucast w, ucast (drop_bit 8 w), ucast (drop_bit 16 w), ucast (drop_bit 24 w)]"

definition word_le :: "byte list \<Rightarrow> 32 word" where
  "word_le bs = ucast (bs ! 0) OR push_bit 8 (ucast (bs ! 1))
                OR push_bit 16 (ucast (bs ! 2)) OR push_bit 24 (ucast (bs ! 3))"

type_synonym md5_state = "32 word \<times> 32 word \<times> 32 word \<times> 32 word"

definition md5_step :: "32 word list \<Rightarrow> nat \<Rightarrow> md5_state \<Rightarrow> md5_state" where
  "md5_step m i st =
     (case st of (a, b, c, d) \<Rightarrow>
        let f = (if i < 16 then (b AND c) OR (NOT b AND d)
                 else if i < 32 then (d AND b) OR (NOT d AND c)
                 else if i < 48 then b XOR c XOR d
                 else c XOR (b OR NOT d));
            g = (if i < 16 then i
                 else if i < 32 then (5 * i + 1) mod 16
                 else if i < 48 then (3 * i + 5) mod 16
                 else (7 * i) mod 16)
        in (d, b + rotl32 (f + a + md5_K ! i + m ! g) (md5_s ! i), b, c))"

definition md5_block :: "md5_state \<Rightarrow> byte list \<Rightarrow> md5_state" where
  "md5_block st block =
     (case st of (a0, b0, c0, d0) \<Rightarrow>
        case fold (md5_step (map (\<lambda>j. word_le (drop (4 * j) block)) [0 ..< 16])) [0 ..< 64] st of
          (a, b, c, d) \<Rightarrow> (a0 + a, b0 + b, c0 + c, d0 + d))"

fun md5_blocks :: "nat \<Rightarrow> md5_state \<Rightarrow> byte list \<Rightarrow> md5_state" where
  "md5_blocks 0 st bs = st"
| "md5_blocks (Suc n) st bs = md5_blocks n (md5_block st (take 64 bs)) (drop 64 bs)"

definition md5_pad :: "byte list \<Rightarrow> byte list" where
  "md5_pad msg =
     msg @ [0x80] @ replicate ((119 - length msg mod 64) mod 64) 0
     @ le32 (word_of_nat (8 * length msg))
     @ le32 (ucast (drop_bit 32 (word_of_nat (8 * length msg) :: 64 word)))"

definition md5 :: "byte list \<Rightarrow> byte list" where
  "md5 msg =
     (case md5_blocks (length (md5_pad msg) div 64)
             (0x67452301, 0xefcdab89, 0x98badcfe, 0x10325476) (md5_pad msg) of
        (a, b, c, d) \<Rightarrow> le32 a @ le32 b @ le32 c @ le32 d)"

text \<open>The array \<^verbatim>\<open>result\<close> of a caller of \<^verbatim>\<open>pg_md5_hash\<close>: 36 bytes.\<close>

definition result_buffer :: "byte list" where
  "result_buffer = replicate 36 0"

section \<open>Basic facts\<close>

lemmas msg_defs =
  PqMsg_Query_def PqMsg_Parse_def PqMsg_Bind_def PqMsg_Execute_def PqMsg_Describe_def
  PqMsg_Sync_def PqMsg_Terminate_def PqMsg_AuthenticationRequest_def
  PqMsg_ParameterStatus_def PqMsg_BackendKeyData_def PqMsg_ReadyForQuery_def
  PqMsg_EmptyQueryResponse_def PqMsg_CommandComplete_def PqMsg_ErrorResponse_def
  PqMsg_NoData_def PqMsg_BindComplete_def PqMsg_ParseComplete_def AUTH_REQ_OK_def
  PG_MSG_AUTHENTICATION_def PG_MSG_ERROR_RESPONSE_def PG_MSG_NOTICE_RESPONSE_def
  PG_MSG_READY_FOR_QUERY_def PG_MSG_ROW_DESCRIPTION_def PG_MSG_DATA_ROW_def
  PG_MSG_COMMAND_COMPLETE_def PG_MSG_PARAMETER_STATUS_def PG_MSG_BACKEND_KEY_DATA_def
  PG_AUTH_OK_def PG_TXN_IDLE_def PG_TXN_TRANSACTION_def PG_TXN_FAILED_def
  PG_ERR_SEVERITY_def PG_ERR_CODE_def PG_ERR_MESSAGE_def

lemma recv_buffer_length:
  "length msg \<le> BUFFER_SIZE \<Longrightarrow> length (recv_buffer msg stale) = BUFFER_SIZE"
  by (simp add: recv_buffer_def)

lemma recv_buffer_nth: "i < length msg \<Longrightarrow> recv_buffer msg stale ! i = msg ! i"
  by (simp add: recv_buffer_def nth_append)

lemma callbacks_create [simp]: "callbacks (pg_server_create cfg) = default_callbacks"
  by (simp add: pg_server_create_def)

lemma send_ok:
  "\<not> peer_gone s \<Longrightarrow> send s bs = (s\<lparr>wire := wire s @ [bs]\<rparr>, int (length bs))"
  by (simp add: send_def)

lemma pg_send_message_fst:
  "fst (pg_send_message s t b) =
     (if peer_gone s then s
      else s\<lparr>wire := wire s @ [[t] @ htonl (word_of_nat (length b) + 4) @ b]\<rparr>)"
  by (simp add: pg_send_message_def send_def Let_def)

lemma pg_send_message_peer_gone [simp]:
  "peer_gone (fst (pg_send_message s t b)) = peer_gone s"
  by (simp add: pg_send_message_fst)

lemma frame_type_Cons [simp]: "frame_type (t # bs) = t"
  by (simp add: frame_type_def)

lemma length_ascii [simp]: "length (ascii s) = length s"
  by (simp add: ascii_def)

lemma ntohl_htonl: "ntohl (htonl w) = w"
proof (rule bit_word_eqI)
  fix n :: nat
  assume "n < LENGTH(32)"
  then have n: "n < 32" by simp
  consider "n < 8" | "8 \<le> n" "n < 16" | "16 \<le> n" "n < 24" | "24 \<le> n" "n < 32"
    using n by linarith
  then show "bit (ntohl (htonl w)) n = bit w n"
  proof cases
    case 1
    then show ?thesis by (auto simp add: ntohl_def htonl_def bit_simps)
  next
    case 2
    then show ?thesis by (auto simp add: ntohl_def htonl_def bit_simps)
  next
    case 3
    then show ?thesis by (auto simp add: ntohl_def htonl_def bit_simps)
  next
    case 4
    then show ?thesis by (auto simp add: ntohl_def htonl_def bit_simps)
  qed
qed

lemma frame_length_built:
  "frame_length ([t] @ htonl w @ payload) = unat w"
proof -
  have "ntohl (htonl w @ payload) = ntohl (htonl w)"
    by (simp add: ntohl_def htonl_def)
  then show ?thesis by (simp add: frame_length_def ntohl_htonl)
qed

section \<open>Startup-class frames\<close>

lemma startup_loop_conn [simp]: "conn (startup_loop buffer len p client) = conn client"
proof (induction buffer len p client rule: startup_loop.induct)
  case (1 buffer len p client)
  then show ?case by (subst startup_loop.simps) simp
qed

lemma startup_loop_backend_pid [simp]:
  "backend_pid (startup_loop buffer len p client) = backend_pid client"
proof (induction buffer len p client rule: startup_loop.induct)
  case (1 buffer len p client)
  then show ?case by (subst startup_loop.simps) simp
qed

lemma startup_loop_secret_key [simp]:
  "secret_key (startup_loop buffer len p client) = secret_key client"
proof (induction buffer len p client rule: startup_loop.induct)
  case (1 buffer len p client)
  then show ?case by (subst startup_loop.simps) simp
qed

lemma startup_loop_fd [simp]: "fd (startup_loop buffer len p client) = fd client"
proof (induction buffer len p client rule: startup_loop.induct)
  case (1 buffer len p client)
  then show ?case by (subst startup_loop.simps) simp
qed

lemma c_str_startup_parameters [simp]:
  "c_str (ascii ''server_version'') = ascii ''server_version''"
  "c_str (ascii ''client_encoding'') = ascii ''client_encoding''"
  "c_str (ascii ''server_encoding'') = ascii ''server_encoding''"
  "c_str (ascii ''DateStyle'') = ascii ''DateStyle''"
  "c_str (ascii ''14.0'') = ascii ''14.0''"
  "c_str (ascii ''UTF8'') = ascii ''UTF8''"
  "c_str (ascii ''ISO, MDY'') = ascii ''ISO, MDY''"
  by (simp_all add: c_str_def ascii_def)

lemma htonl_parameter_lengths:
  "htonl 24 = [0, 0, 0, 24]" "htonl 25 = [0, 0, 0, 25]" "htonl 23 = [0, 0, 0, 23]"
  by (simp_all add: htonl_def)

lemma parameter_status_frames:
  assumes "\<not> peer_gone s"
  shows "send_parameter_status_loop s startup_parameters =
     (s\<lparr>wire := wire s @
        [[PqMsg_ParameterStatus, 0, 0, 0, 24]
           @ ascii ''server_version'' @ [0] @ ascii ''14.0'' @ [0],
         [PqMsg_ParameterStatus, 0, 0, 0, 25]
           @ ascii ''client_encoding'' @ [0] @ ascii ''UTF8'' @ [0],
         [PqMsg_ParameterStatus, 0, 0, 0, 25]
           @ ascii ''server_encoding'' @ [0] @ ascii ''UTF8'' @ [0],
         [PqMsg_ParameterStatus, 0, 0, 0, 23]
           @ ascii ''DateStyle'' @ [0] @ ascii ''ISO, MDY'' @ [0]]\<rparr>, 0)"
  using assms
  by (simp add: startup_parameters_def send_def strlen_def htonl_parameter_lengths)

lemma send_startup_messages_ok:
  assumes "\<not> peer_gone (conn client)"
  shows "pg_server_send_startup_messages client =
     (client\<lparr>conn := (conn client)\<lparr>wire := wire (conn client)
         @ startup_reply (backend_pid client) (secret_key client)\<rparr>\<rparr>, 0)"
proof -
  let ?s1 = "(conn client)\<lparr>wire := wire (conn client)
               @ [[PqMsg_AuthenticationRequest, 0, 0, 0, 8, 0, 0, 0, 0]]\<rparr>"
  have s1: "\<not> peer_gone ?s1" using assms by simp
  show ?thesis
    using assms
    by (simp add: pg_server_send_startup_messages_def send_ok
        parameter_status_frames [OF s1] startup_reply_def PG_TXN_IDLE_def)
qed

text \<open>
  C4, as the code has it: the protocol version of a StartupMessage is never read. For
  every startup-class frame (first byte 0) on a connection that takes the reply, whatever
  its version, the default startup handler sends AuthenticationOk, four ParameterStatus
  frames, BackendKeyData and ReadyForQuery, and returns 0: the connection stays open and
  no ErrorResponse is sent.
\<close>

theorem startup_reply_any_version:
  assumes "0 < bytes_read" and "length buffer = BUFFER_SIZE" and "buffer ! 0 = 0"
    and "\<not> peer_gone (conn client)"
  shows "snd (pg_server_handle_client (pg_server_create cfg) client buffer bytes_read) = 0
    \<and> wire (conn (fst (pg_server_handle_client (pg_server_create cfg) client buffer bytes_read)))
        = wire (conn client) @ startup_reply (backend_pid client) (secret_key client)"
  using assms
  by (simp add: pg_server_handle_client_def default_callbacks_def pg_default_startup_callback_def
      send_startup_messages_ok)

theorem startup_reply_any_version_witness:
  "(0::int) < 16 \<and> length (recv_buffer startup_msg_v2 0) = BUFFER_SIZE
   \<and> recv_buffer startup_msg_v2 0 ! 0 = 0 \<and> \<not> peer_gone (conn client1)
   \<and> snd (pg_server_handle_client (pg_server_create cfg0) client1
        (recv_buffer startup_msg_v2 0) 16) = 0
   \<and> wire (conn (fst (pg_server_handle_client (pg_server_create cfg0) client1
        (recv_buffer startup_msg_v2 0) 16)))
        = wire (conn client1) @ startup_reply (backend_pid client1) (secret_key client1)"
proof -
  have h: "(0::int) < 16" "length (recv_buffer startup_msg_v2 0) = BUFFER_SIZE"
    "recv_buffer startup_msg_v2 0 ! 0 = 0" "\<not> peer_gone (conn client1)"
    by (simp_all add: recv_buffer_length recv_buffer_nth startup_msg_v2_def BUFFER_SIZE_def
        client1_def)
  from h startup_reply_any_version [OF h, of cfg0] show ?thesis by simp
qed

text \<open>
  C4 as stated fails: a StartupMessage of protocol version 2.0 is answered with the
  frames of a successful startup, first of them AuthenticationOk, and the handler
  returns 0, so the connection is not closed.
\<close>

theorem startup_v2_counterexample:
  "snd (pg_server_handle_client (pg_server_create cfg0) client1
      (recv_buffer startup_msg_v2 0) 16) = 0
   \<and> map frame_type (wire (conn (fst (pg_server_handle_client (pg_server_create cfg0) client1
      (recv_buffer startup_msg_v2 0) 16))))
     = [PqMsg_AuthenticationRequest, PqMsg_ParameterStatus, PqMsg_ParameterStatus,
        PqMsg_ParameterStatus, PqMsg_ParameterStatus, PqMsg_BackendKeyData, PqMsg_ReadyForQuery]"
  by (simp add: pg_server_handle_client_def default_callbacks_def pg_default_startup_callback_def
      send_startup_messages_ok recv_buffer_nth startup_msg_v2_def client1_def
      startup_reply_def frame_type_def)

text \<open>
  C5: a CancelRequest never produces a reply frame on the connection that carried it.
  The code breaks this: the first byte of a CancelRequest is 0, so
  \<^verbatim>\<open>pg_server_handle_client\<close> hands it to the startup callback (the cancel callback is never
  called), which answers on that very connection with the seven startup frames.
\<close>

theorem cancel_request_gets_reply:
  "wire (conn (fst (pg_server_handle_client (pg_server_create cfg0) client1
      (recv_buffer cancel_msg 0) 16))) = startup_reply 12351 77"
  by (simp add: pg_server_handle_client_def default_callbacks_def pg_default_startup_callback_def
      send_startup_messages_ok recv_buffer_nth cancel_msg_def client1_def)

section \<open>Frame lengths\<close>

text \<open>
  The frames of \<^verbatim>\<open>pg_send_message\<close>, the hand-written startup frames and the replies of
  the other default handlers carry a length field of 4 plus the payload length.
\<close>

lemma pg_send_message_length_consistent:
  assumes "\<not> peer_gone s" and "length buffer + 4 < 2 ^ 32"
  shows "wire (fst (pg_send_message s t buffer)) = wire s @ [[t] @ htonl (word_of_nat (length buffer) + 4) @ buffer]
    \<and> length_consistent ([t] @ htonl (word_of_nat (length buffer) + 4) @ buffer)"
proof -
  have "(word_of_nat (length buffer) + 4 :: 32 word) = word_of_nat (length buffer + 4)"
    by simp
  then have "unat (word_of_nat (length buffer) + 4 :: 32 word) = length buffer + 4"
    using assms(2) by (simp only: unat_of_nat) simp
  then have "length_consistent ([t] @ htonl (word_of_nat (length buffer) + 4) @ buffer)"
    unfolding length_consistent_def frame_length_built
    by (simp add: frame_payload_def htonl_def)
  with assms(1) show ?thesis by (simp add: pg_send_message_fst)
qed

lemma startup_reply_length_consistent: "list_all length_consistent (startup_reply pid key)"
  by (simp add: startup_reply_def length_consistent_def frame_length_def frame_payload_def
      ntohl_def htonl_def)

lemma default_replies_length_consistent:
  "length_consistent [PqMsg_AuthenticationRequest, 0, 0, 0, 8, 0, 0, 0, AUTH_REQ_OK]"
  "length_consistent (take 5 [PqMsg_EmptyQueryResponse, 0, 0, 0, 4, 0])"
  "length_consistent [PqMsg_ReadyForQuery, 0, 0, 0, 5, of_char CHR ''I'']"
  "length_consistent [PqMsg_NoData, 0, 0, 0, 4]"
  "length_consistent [PqMsg_BindComplete, 0, 0, 0, 4]"
  "length_consistent [PqMsg_EmptyQueryResponse, 0, 0, 0, 4]"
  "length_consistent [PqMsg_CommandComplete, 0, 0, 0, 5, 0]"
  "length_consistent [PqMsg_ParseComplete, 0, 0, 0, 4]"
  by (simp_all add: length_consistent_def frame_length_def frame_payload_def ntohl_def)

lemma error_msg_length: "frame_length error_msg = 85 \<and> length (frame_payload error_msg) = 37"
  by (simp add: frame_payload_def frame_length_def error_msg_def ascii_def ntohl_def)

text \<open>
  C1: for every backend message the server emits, the length field equals 4 plus the
  number of payload bytes sent after it, also in the ErrorResponse of
  \<^verbatim>\<open>pg_default_unknown_callback\<close>. The code breaks this for that ErrorResponse: on a
  message of unknown type (here Flush) the length field says 85 while 37 payload bytes
  follow, so that a consistent field would be 41.
\<close>

theorem unknown_reply_length_field:
  "frame_length (hd (wire (conn (fst (pg_server_handle_client (pg_server_create cfg0)
      client0 (recv_buffer flush_msg 0) 5))))) = 85
   \<and> length (frame_payload (hd (wire (conn (fst (pg_server_handle_client
      (pg_server_create cfg0) client0 (recv_buffer flush_msg 0) 5)))))) = 37
   \<and> \<not> length_consistent (hd (wire (conn (fst (pg_server_handle_client
      (pg_server_create cfg0) client0 (recv_buffer flush_msg 0) 5)))))"
proof -
  have "hd (wire (conn (fst (pg_server_handle_client (pg_server_create cfg0)
      client0 (recv_buffer flush_msg 0) 5)))) = error_msg"
    by (simp add: pg_server_handle_client_def default_callbacks_def
        pg_default_unknown_callback_def send_def msg_defs recv_buffer_nth flush_msg_def
        client0_def)
  then show ?thesis
    by (simp add: error_msg_length length_consistent_def)
qed

section \<open>Messages of unknown type\<close>

lemma known_variant_dispatched:
  "\<not> known_variant t \<Longrightarrow>
     t \<notin> {0, PqMsg_Query, PqMsg_Parse, PqMsg_Bind, PqMsg_Execute, PqMsg_Describe,
           PqMsg_Sync, PqMsg_Terminate}"
  by (auto simp add: known_variant_def ascii_def msg_defs)

lemma error_msg_sqlstate: "sqlstate (error_msg @ rest) = Some (ascii ''42601'')"
  by (simp add: sqlstate_def frame_payload_def error_msg_def ascii_def c_str_def strlen_def
      msg_defs)

text \<open>
  C3, as the code has it: for every inbound message whose type byte matches no known
  variant, on a connection that takes the reply, the default handler replies with an
  ErrorResponse whose SQLSTATE code field is \<^verbatim>\<open>42601\<close>. The ErrorResponse is the first
  thing sent in reply, and its code field reads \<^verbatim>\<open>42601\<close> whatever bytes \<open>rest\<close> follow it
  on the stream.
\<close>

theorem unknown_reply_sqlstate_42601:
  assumes "0 < bytes_read" and "length buffer = BUFFER_SIZE"
    and "\<not> known_variant (buffer ! 0)"
    and "\<not> peer_gone (conn client)"
  shows "take (Suc (length (wire (conn client))))
           (wire (conn (fst (pg_server_handle_client (pg_server_create cfg) client buffer
              bytes_read))))
           = wire (conn client) @ [error_msg]
         \<and> frame_type error_msg = of_char CHR ''E''
         \<and> sqlstate (error_msg @ rest) = Some (ascii ''42601'')"
proof -
  from assms(3) have "buffer ! 0 \<notin> {0, PqMsg_Query, PqMsg_Parse, PqMsg_Bind, PqMsg_Execute,
      PqMsg_Describe, PqMsg_Sync, PqMsg_Terminate}"
    by (rule known_variant_dispatched)
  with assms(1,4)
  have "wire (conn (fst (pg_server_handle_client (pg_server_create cfg) client buffer
      bytes_read))) = wire (conn client) @ [error_msg, [PqMsg_ReadyForQuery, 0, 0, 0, 5, 73]]"
    by (simp add: pg_server_handle_client_def default_callbacks_def
        pg_default_unknown_callback_def send_def)
  moreover have "frame_type error_msg = of_char CHR ''E''"
    by (simp add: error_msg_def msg_defs)
  ultimately show ?thesis
    by (simp add: error_msg_sqlstate)
qed

theorem unknown_reply_sqlstate_42601_witness:
  "(0::int) < 5 \<and> length (recv_buffer unknown_msg 0) = BUFFER_SIZE
   \<and> \<not> known_variant (recv_buffer unknown_msg 0 ! 0)
   \<and> \<not> peer_gone (conn client0)
   \<and> take (Suc (length (wire (conn client0))))
        (wire (conn (fst (pg_server_handle_client (pg_server_create cfg0) client0
           (recv_buffer unknown_msg 0) 5))))
        = wire (conn client0) @ [error_msg]
   \<and> frame_type error_msg = of_char CHR ''E''
   \<and> sqlstate (error_msg @ [of_char CHR ''Z'', 0, 0, 0, 5, of_char CHR ''I''])
        = Some (ascii ''42601'')"
proof -
  have h: "(0::int) < 5" "length (recv_buffer unknown_msg 0) = BUFFER_SIZE"
    "\<not> known_variant (recv_buffer unknown_msg 0 ! 0)"
    "\<not> peer_gone (conn client0)"
    by (simp_all add: recv_buffer_length recv_buffer_nth unknown_msg_def BUFFER_SIZE_def
        client0_def known_variant_def ascii_def)
  from h unknown_reply_sqlstate_42601 [OF h, of cfg0] show ?thesis by simp
qed

text \<open>
  C3 as stated fails: for a message with the type byte \<^verbatim>\<open>0xFF\<close>, which matches no known
  variant, the SQLSTATE of the ErrorResponse sent is \<^verbatim>\<open>42601\<close> and not \<^verbatim>\<open>08P01\<close>.
\<close>

theorem unknown_reply_sqlstate_counterexample:
  "\<not> known_variant (recv_buffer unknown_msg 0 ! 0)
   \<and> sqlstate (hd (wire (conn (fst (pg_server_handle_client (pg_server_create cfg0)
        client0 (recv_buffer unknown_msg 0) 5))))) = Some (ascii ''42601'')
   \<and> sqlstate (hd (wire (conn (fst (pg_server_handle_client (pg_server_create cfg0)
        client0 (recv_buffer unknown_msg 0) 5))))) \<noteq> Some (ascii ''08P01'')"
proof -
  have "hd (wire (conn (fst (pg_server_handle_client (pg_server_create cfg0)
        client0 (recv_buffer unknown_msg 0) 5)))) = error_msg"
    by (simp add: pg_server_handle_client_def default_callbacks_def
        pg_default_unknown_callback_def send_def msg_defs recv_buffer_nth unknown_msg_def
        client0_def)
  moreover have "\<not> known_variant (recv_buffer unknown_msg 0 ! 0)"
    by (simp add: recv_buffer_nth unknown_msg_def known_variant_def ascii_def)
  ultimately show ?thesis
    using error_msg_sqlstate [of "[]"] by (simp add: ascii_def)
qed

section \<open>Simple queries (pg_query.c)\<close>

lemma skip_space_dropWhile: "skip_space q = dropWhile isspace q"
  by (induction q) simp_all

lemma first_word_loop_takeWhile:
  "first_word_loop q i =
     map toupper (take (15 - i) (takeWhile (\<lambda>c. c \<noteq> 0 \<and> \<not> isspace c) q))"
proof (induction q arbitrary: i)
  case Nil
  show ?case by simp
next
  case (Cons c cs)
  show ?case
  proof (cases "i < 15")
    case True
    then have "15 - i = Suc (15 - Suc i)" by simp
    with Cons True show ?thesis by simp
  next
    case False
    then show ?thesis by simp
  qed
qed

lemma first_word_loop_first_word:
  assumes "first_word_is q w" and "length w \<le> 15"
  shows "first_word_loop (skip_space q) 0 = ascii w"
proof -
  have "length (first_word q) = length w"
    using assms(1) unfolding first_word_is_def
    by (metis length_map ascii_def)
  with assms show ?thesis
    by (simp add: first_word_loop_takeWhile skip_space_dropWhile first_word_is_def first_word_def)
qed

lemma query_type_begin: "first_word_is q ''BEGIN'' \<Longrightarrow> pg_get_query_type q = QUERY_BEGIN"
  by (simp add: pg_get_query_type_def first_word_loop_first_word ascii_def)

lemma query_type_commit: "first_word_is q ''COMMIT'' \<Longrightarrow> pg_get_query_type q = QUERY_COMMIT"
  by (simp add: pg_get_query_type_def first_word_loop_first_word ascii_def)

lemma query_type_rollback:
  "first_word_is q ''ROLLBACK'' \<Longrightarrow> pg_get_query_type q = QUERY_ROLLBACK"
  by (simp add: pg_get_query_type_def first_word_loop_first_word ascii_def)

lemma c_str_tags [simp]:
  "c_str (ascii ''BEGIN'') = ascii ''BEGIN''"
  "c_str (ascii ''COMMIT'') = ascii ''COMMIT''"
  "c_str (ascii ''ROLLBACK'') = ascii ''ROLLBACK''"
  by (simp_all add: c_str_def ascii_def)

lemma htonl_small_lengths:
  "htonl 5 = [0, 0, 0, 5]" "htonl 10 = [0, 0, 0, 10]" "htonl 11 = [0, 0, 0, 11]"
  "htonl 13 = [0, 0, 0, 13]"
  by (simp_all add: htonl_def)

text \<open>
  C8, as the code has it: for every simple query whose first white-space-delimited word,
  compared without regard to case, is BEGIN the transaction status of the session becomes
  \<^verbatim>\<open>T\<close>, for COMMIT or ROLLBACK it becomes \<^verbatim>\<open>I\<close>, and the ReadyForQuery frame emitted for
  the query (after its CommandComplete) carries the status after the update.
\<close>

theorem transaction_query_status:
  assumes "first_word_is q w"
    and "w = ''BEGIN'' \<and> st = of_char CHR ''T''
         \<or> w = ''COMMIT'' \<and> st = of_char CHR ''I''
         \<or> w = ''ROLLBACK'' \<and> st = of_char CHR ''I''"
  shows "txn_status (fst (pg_default_query_callback_pg_query client q)) = st
    \<and> (\<not> peer_gone (conn client) \<longrightarrow>
         wire (conn (fst (pg_default_query_callback_pg_query client q)))
           = wire (conn client)
             @ [[of_char CHR ''C''] @ htonl (word_of_nat (length w + 1) + 4)
                  @ ascii w @ [0],
                [of_char CHR ''Z'', 0, 0, 0, 5, st]])"
  using assms
  by (auto simp add: pg_default_query_callback_pg_query_def query_type_begin query_type_commit
      query_type_rollback pg_handle_transaction_def pg_send_command_complete_def
      pg_send_ready_for_query_def pg_send_message_fst htonl_small_lengths Let_def msg_defs)

theorem transaction_query_status_witness:
  "first_word_is begin_query ''BEGIN''
   \<and> (''BEGIN'' = ''BEGIN'' \<and> (of_char CHR ''T'' :: byte) = of_char CHR ''T''
         \<or> ''BEGIN'' = ''COMMIT'' \<and> (of_char CHR ''T'' :: byte) = of_char CHR ''I''
         \<or> ''BEGIN'' = ''ROLLBACK'' \<and> (of_char CHR ''T'' :: byte) = of_char CHR ''I'')
   \<and> \<not> peer_gone (conn client0)
   \<and> txn_status client0 = of_char CHR ''I''
   \<and> txn_status (fst (pg_default_query_callback_pg_query client0 begin_query))
       = of_char CHR ''T''
   \<and> txn_status (fst (pg_default_query_callback_pg_query client0 begin_query))
       \<noteq> txn_status client0
   \<and> wire (conn (fst (pg_default_query_callback_pg_query client0 begin_query)))
       = [[of_char CHR ''C'', 0, 0, 0, 10] @ ascii ''BEGIN'' @ [0],
          [of_char CHR ''Z'', 0, 0, 0, 5, of_char CHR ''T'']]"
proof -
  have h1: "first_word_is begin_query ''BEGIN''"
    by (simp add: first_word_is_def first_word_def begin_query_def ascii_def isspace_def
        toupper_def)
  have h2: "''BEGIN'' = ''BEGIN'' \<and> (of_char CHR ''T'' :: byte) = of_char CHR ''T''
         \<or> ''BEGIN'' = ''COMMIT'' \<and> (of_char CHR ''T'' :: byte) = of_char CHR ''I''
         \<or> ''BEGIN'' = ''ROLLBACK'' \<and> (of_char CHR ''T'' :: byte) = of_char CHR ''I''"
    by simp
  have h3: "\<not> peer_gone (conn client0)" "txn_status client0 = of_char CHR ''I''"
    "wire (conn client0) = []"
    by (simp_all add: client0_def PG_TXN_IDLE_def)
  from h1 h2 h3 transaction_query_status [OF h1 h2, of client0] show ?thesis
    by (simp add: htonl_small_lengths)
qed

lemma begin_semicolon_query_type: "pg_get_query_type begin_semicolon_query = QUERY_UNKNOWN"
  by (simp add: begin_semicolon_query_def pg_get_query_type_def ascii_def isspace_def
      toupper_def)

text \<open>
  C8 as stated fails: the first word of the query \<^verbatim>\<open>BEGIN;\<close> is BEGIN, but the handler
  takes the word with its semicolon, answers with an ErrorResponse and a ReadyForQuery
  carrying \<^verbatim>\<open>I\<close>, returns \<open>-1\<close> and leaves the idle session idle.
\<close>

theorem begin_semicolon_counterexample:
  "txn_status client0 = of_char CHR ''I''
   \<and> txn_status (fst (pg_default_query_callback_pg_query client0 begin_semicolon_query))
       = of_char CHR ''I''
   \<and> txn_status (fst (pg_default_query_callback_pg_query client0 begin_semicolon_query))
       \<noteq> of_char CHR ''T''
   \<and> snd (pg_default_query_callback_pg_query client0 begin_semicolon_query) = - 1
   \<and> map frame_type (wire (conn (fst (pg_default_query_callback_pg_query client0
        begin_semicolon_query))))
       = [of_char CHR ''E'', of_char CHR ''Z'']
   \<and> frame_payload (last (wire (conn (fst (pg_default_query_callback_pg_query client0
        begin_semicolon_query))))) = [of_char CHR ''I'']"
  by (simp add: pg_default_query_callback_pg_query_def begin_semicolon_query_type
      pg_send_error_def pg_send_ready_for_query_def pg_send_message_fst Let_def client0_def
      msg_defs frame_payload_def htonl_small_lengths)

lemma pg_query_reply_types:
  "set (map frame_type (drop (length (wire (conn client)))
      (wire (conn (fst (pg_default_query_callback_pg_query client q))))))
    \<subseteq> {PG_MSG_ROW_DESCRIPTION, PG_MSG_DATA_ROW, PG_MSG_COMMAND_COMPLETE,
        PG_MSG_ERROR_RESPONSE, PG_MSG_READY_FOR_QUERY}"
  by (cases "pg_get_query_type q")
     (simp_all add: pg_default_query_callback_pg_query_def pg_handle_select_def
       pg_handle_insert_def pg_handle_update_def pg_handle_delete_def
       pg_handle_transaction_def pg_send_row_description_def pg_send_data_row_def
       pg_send_command_complete_def pg_send_ready_for_query_def pg_send_error_def
       pg_send_message_fst Let_def)

section \<open>The default query handler (pg_server.c)\<close>

text \<open>
  C7, as the code has it: for every Query message handled by the default query handler
  that \<^verbatim>\<open>pg_server_create\<close> registers, on a connection that takes the reply, the reply is
  one EmptyQueryResponse frame and nothing else: no CommandComplete follows.
\<close>

theorem default_query_reply:
  assumes "0 < bytes_read" and "length buffer = BUFFER_SIZE" and "buffer ! 0 = PqMsg_Query"
    and "\<not> peer_gone (conn client)"
  shows "pg_server_handle_client (pg_server_create cfg) client buffer bytes_read =
           (client\<lparr>conn := (conn client)\<lparr>wire := wire (conn client)
               @ [[PqMsg_EmptyQueryResponse, 0, 0, 0, 4]]\<rparr>\<rparr>, 5)"
  using assms
  by (simp add: pg_server_handle_client_def default_callbacks_def pg_default_query_callback_def
      send_def msg_defs)

theorem default_query_reply_witness:
  "(0::int) < 14 \<and> length (recv_buffer query_msg 0) = BUFFER_SIZE
   \<and> recv_buffer query_msg 0 ! 0 = PqMsg_Query \<and> \<not> peer_gone (conn client0)
   \<and> pg_server_handle_client (pg_server_create cfg0) client0 (recv_buffer query_msg 0) 14 =
       (client0\<lparr>conn := (conn client0)\<lparr>wire := wire (conn client0)
               @ [[PqMsg_EmptyQueryResponse, 0, 0, 0, 4]]\<rparr>\<rparr>, 5)"
proof -
  have h: "(0::int) < 14" "length (recv_buffer query_msg 0) = BUFFER_SIZE"
    "recv_buffer query_msg 0 ! 0 = PqMsg_Query" "\<not> peer_gone (conn client0)"
    by (simp_all add: recv_buffer_length recv_buffer_nth query_msg_def BUFFER_SIZE_def
        client0_def)
  from h default_query_reply [OF h, of cfg0] show ?thesis by simp
qed

lemma select_query_type: "pg_get_query_type (drop 5 (recv_buffer query_msg 0)) = QUERY_SELECT"
  by (simp add: recv_buffer_def query_msg_def pg_get_query_type_def ascii_def isspace_def
      toupper_def)

text \<open>
  C7 as stated fails: for the query \<^verbatim>\<open>SELECT 1\<close> the reply of the handler of pg_server.c
  is an EmptyQueryResponse alone, and the reply of the handler of pg_query.c is
  RowDescription, two DataRow, CommandComplete, ReadyForQuery; neither is an
  EmptyQueryResponse followed by a CommandComplete.
\<close>

theorem default_query_reply_counterexample:
  "map frame_type (wire (conn (fst (pg_server_handle_client (pg_server_create cfg0)
      client0 (recv_buffer query_msg 0) 14))))
    = [PqMsg_EmptyQueryResponse]
   \<and> map frame_type (wire (conn (fst (pg_default_query_callback_pg_query client0
      (drop 5 (recv_buffer query_msg 0))))))
    = [PG_MSG_ROW_DESCRIPTION, PG_MSG_DATA_ROW, PG_MSG_DATA_ROW, PG_MSG_COMMAND_COMPLETE,
       PG_MSG_READY_FOR_QUERY]"
proof
  show "map frame_type (wire (conn (fst (pg_server_handle_client (pg_server_create cfg0)
      client0 (recv_buffer query_msg 0) 14)))) = [PqMsg_EmptyQueryResponse]"
    by (simp add: pg_server_handle_client_def default_callbacks_def
        pg_default_query_callback_def send_def msg_defs recv_buffer_nth query_msg_def
        client0_def)
  show "map frame_type (wire (conn (fst (pg_default_query_callback_pg_query client0
      (drop 5 (recv_buffer query_msg 0))))))
    = [PG_MSG_ROW_DESCRIPTION, PG_MSG_DATA_ROW, PG_MSG_DATA_ROW, PG_MSG_COMMAND_COMPLETE,
       PG_MSG_READY_FOR_QUERY]"
    by (simp add: pg_default_query_callback_pg_query_def select_query_type
        pg_handle_select_def pg_send_row_description_def pg_send_data_row_def
        pg_send_command_complete_def pg_send_ready_for_query_def pg_send_message_fst
        client0_def Let_def)
qed

section \<open>Sync\<close>







text \<open>
  The default handlers of pg_server.c never change the transaction status of a session.
\<close>

lemma startup_loop_txn_status [simp]:
  "txn_status (startup_loop buffer len p client) = txn_status client"
proof (induction buffer len p client rule: startup_loop.induct)
  case (1 buffer len p client)
  then show ?case by (subst startup_loop.simps) simp
qed

lemma default_handlers_keep_txn_status:
  "txn_status (fst (pg_server_handle_client (pg_server_create cfg) client buffer bytes_read))
     = txn_status client"
  by (simp add: pg_server_handle_client_def default_callbacks_def Let_def
      pg_default_startup_callback_def pg_server_send_startup_messages_def
      pg_default_query_callback_def pg_default_parse_callback_def pg_default_bind_callback_def
      pg_default_execute_callback_def pg_default_describe_callback_def
      pg_default_sync_callback_def pg_default_terminate_callback_def
      pg_default_unknown_callback_def split: prod.splits)

section \<open>Uniqueness of the cancel keys\<close>

lemma send_startup_messages_ids:
  "fd (fst (pg_server_send_startup_messages c)) = fd c
   \<and> backend_pid (fst (pg_server_send_startup_messages c)) = backend_pid c
   \<and> secret_key (fst (pg_server_send_startup_messages c)) = secret_key c"
  by (simp add: pg_server_send_startup_messages_def Let_def split: prod.splits)

lemma handle_client_ids:
  assumes "callbacks server = default_callbacks"
  shows "fd (fst (pg_server_handle_client server c buffer n)) = fd c
   \<and> backend_pid (fst (pg_server_handle_client server c buffer n)) = backend_pid c
   \<and> secret_key (fst (pg_server_handle_client server c buffer n)) = secret_key c"
  using assms
  by (simp add: pg_server_handle_client_def default_callbacks_def Let_def
      pg_default_startup_callback_def send_startup_messages_ids
      pg_default_query_callback_def pg_default_parse_callback_def pg_default_bind_callback_def
      pg_default_execute_callback_def pg_default_describe_callback_def
      pg_default_sync_callback_def pg_default_terminate_callback_def
      pg_default_unknown_callback_def split: prod.splits)

lemma find_empty_slot_Some:
  "find_empty_slot s i = Some j \<Longrightarrow>
     i \<le> j \<and> int j < max_connections (config s) \<and> clients s ! j = None"
proof (induction s i rule: find_empty_slot.induct)
  case (1 server i)
  from "1.prems" show ?case
    by (subst (asm) find_empty_slot.simps) (use "1.IH" in \<open>auto split: if_splits\<close>)
qed

lemma live_clients_update:
  "i < length (clients s) \<Longrightarrow>
     live (s\<lparr>clients := (clients s)[i := x]\<rparr>) j = (if j = i then x else live s j)"
  by (simp add: live_def)

lemma live_num_clients [simp]: "live (s\<lparr>num_clients := n\<rparr>) = live s"
  by (simp add: live_def fun_eq_iff)

lemma live_running [simp]: "live (s\<lparr>running := n\<rparr>) = live s"
  by (simp add: live_def fun_eq_iff)

lemma fd_unused_live: "fd_unused s f \<Longrightarrow> live s i = Some c \<Longrightarrow> fd c \<noteq> f"
  by (auto simp add: fd_unused_def live_def list_all_length split: if_splits)

lemma inv_create: "server_inv g (pg_server_create cfg)"
  by (simp add: server_inv_def pg_server_create_def live_def)

lemma inv_add:
  assumes "server_inv g s" and "fd_unused s f"
  shows "server_inv g (fst (pg_server_add_client g r s f))"
proof (cases "num_clients s \<ge> max_connections (config s)")
  case True
  with assms show ?thesis by (simp add: pg_server_add_client_def)
next
  case False
  show ?thesis
  proof (cases "find_empty_slot s 0")
    case None
    with False assms show ?thesis by (simp add: pg_server_add_client_def)
  next
    case (Some i)
    from find_empty_slot_Some [OF Some] assms(1)
    have i: "i < length (clients s)" "clients s ! i = None"
      by (auto simp add: server_inv_def)
    then have li: "live s i = None" by (simp add: live_def)
    from False Some i assms show ?thesis
      by (auto simp add: pg_server_add_client_def server_inv_def live_clients_update
          dest: fd_unused_live split: if_splits)
  qed
qed

lemma inv_remove:
  assumes "server_inv g s"
  shows "server_inv g (fst (pg_server_remove_client s i))"
  using assms
  by (auto simp add: pg_server_remove_client_def server_inv_def live_clients_update
      split: if_splits)

lemma inv_run_client:
  assumes "server_inv g s"
  shows "server_inv g (pg_server_run_client s i buffer n)"
proof (cases "i < length (clients s)")
  case False
  with assms show ?thesis by (simp add: pg_server_run_client_def)
next
  case True
  show ?thesis
  proof (cases "clients s ! i")
    case None
    with True assms show ?thesis by (simp add: pg_server_run_client_def)
  next
    case (Some c)
    obtain c' rc where h: "pg_server_handle_client s c buffer n = (c', rc)"
      by (cases "pg_server_handle_client s c buffer n")
    from assms have cb: "callbacks s = default_callbacks" by (simp add: server_inv_def)
    from handle_client_ids [OF cb, of c buffer n] h
    have ids: "fd c' = fd c" "backend_pid c' = backend_pid c" by simp_all
    have li: "live s i = Some c" using True Some by (simp add: live_def)
    let ?s' = "s\<lparr>clients := (clients s)[i := Some c']\<rparr>"
    have inv': "server_inv g ?s'"
      using assms True li ids
      by (auto simp add: server_inv_def live_clients_update split: if_splits)
    show ?thesis
      using True Some h inv' inv_remove [OF inv', of i]
      by (simp add: pg_server_run_client_def Let_def)
  qed
qed

lemma inv_stop_fold:
  "server_inv g s \<Longrightarrow>
   server_inv g (fold (\<lambda>i s. if clients s ! i \<noteq> None
      then fst (pg_server_remove_client s i) else s) xs s)"
  by (induction xs arbitrary: s) (simp_all add: inv_remove)

lemma inv_stop: "server_inv g s \<Longrightarrow> server_inv g (pg_server_stop s)"
  unfolding pg_server_stop_def
  by (rule inv_stop_fold) (simp add: server_inv_def)

lemma reachable_inv: "reachable g s \<Longrightarrow> server_inv g s"
  by (induction rule: reachable.induct)
     (simp_all add: inv_create inv_add inv_run_client inv_stop)

text \<open>
  C9: at every moment, any two distinct sessions of the live-session table have distinct
  (backend_pid, secret_key) pairs. The states are those reachable from
  \<^verbatim>\<open>pg_server_create\<close> by accepting connections (on descriptors that no stored session
  holds), serving readable sessions and stopping.
\<close>

theorem session_keys_unique:
  assumes "reachable getpid server"
    and "live server i = Some a" and "live server j = Some b" and "i \<noteq> j"
  shows "(backend_pid a, secret_key a) \<noteq> (backend_pid b, secret_key b)"
proof -
  from reachable_inv [OF assms(1)] assms(2-4)
  have "backend_pid a = getpid + fd a" "backend_pid b = getpid + fd b" "fd a \<noteq> fd b"
    unfolding server_inv_def by blast+
  then show ?thesis by simp
qed

lemma find_empty_slot_created: "find_empty_slot (pg_server_create cfg0) 0 = Some 0"
  by (subst find_empty_slot.simps) (simp add: pg_server_create_def cfg0_def)

lemma server1_eq:
  "server1 = (pg_server_create cfg0)\<lparr>clients := [Some client0, None], num_clients := 1\<rparr>"
  by (simp add: server1_def pg_server_add_client_def find_empty_slot_created client0_def
      PG_TXN_IDLE_def)
     (simp add: pg_server_create_def cfg0_def numeral_2_eq_2)

lemma find_empty_slot_server1: "find_empty_slot server1 0 = Some 1"
  apply (subst find_empty_slot.simps)
  apply (subst find_empty_slot.simps)
  apply (simp add: server1_eq pg_server_create_def cfg0_def)
  done

lemma server2_clients:
  "clients server2 = [Some client0, Some (client1\<lparr>secret_key := 42\<rparr>)]"
  by (simp add: server2_def pg_server_add_client_def find_empty_slot_server1)
     (simp add: server1_eq client1_def PG_TXN_IDLE_def pg_server_create_def cfg0_def)

lemma reachable_server2: "reachable 12345 server2"
proof -
  have r0: "reachable 12345 (pg_server_create cfg0)"
    by (rule reachable.created)
  have u1: "fd_unused (pg_server_create cfg0) 5"
    by (simp add: fd_unused_def pg_server_create_def list_all_iff)
  have r1: "reachable 12345 server1"
    unfolding server1_def by (rule reachable.accepted [OF r0 u1])
  have u2: "fd_unused server1 6"
    by (simp add: fd_unused_def server1_eq client0_def)
  show ?thesis
    unfolding server2_def by (rule reachable.accepted [OF r1 u2])
qed

theorem session_keys_unique_witness:
  "reachable 12345 server2
   \<and> live server2 0 = Some client0 \<and> live server2 1 = Some (client1\<lparr>secret_key := 42\<rparr>)
   \<and> (0::nat) \<noteq> 1
   \<and> secret_key client0 = secret_key (client1\<lparr>secret_key := 42\<rparr>)
   \<and> (backend_pid client0, secret_key client0)
       \<noteq> (backend_pid (client1\<lparr>secret_key := 42\<rparr>), secret_key (client1\<lparr>secret_key := 42\<rparr>))"
proof -
  have h: "live server2 0 = Some client0" "live server2 1 = Some (client1\<lparr>secret_key := 42\<rparr>)"
    "(0::nat) \<noteq> 1"
    by (simp_all add: live_def server2_clients)
  from h reachable_server2 session_keys_unique [OF reachable_server2 h] show ?thesis
    by (simp add: client0_def client1_def)
qed

section \<open>Terminate\<close>

text \<open>
  C6: on a Terminate message the server sends no reply and closes the session, removing
  it from the table, as a direct consequence of processing the message. The code sends
  no reply, but breaks the second part: the terminate callback returns 0, so
  \<^verbatim>\<open>pg_server_handle_client\<close> returns 0 and \<^verbatim>\<open>pg_server_run\<close>, which removes a session only
  on a negative result, keeps the session in its slot with its descriptor open.
\<close>

theorem terminate_keeps_session:
  "live server1 0 = Some client0
   \<and> pg_server_handle_client server1 client0 (recv_buffer terminate_msg 0) 5 = (client0, 0)
   \<and> live (pg_server_run_client server1 0 (recv_buffer terminate_msg 0) 5) 0 = Some client0
   \<and> num_clients (pg_server_run_client server1 0 (recv_buffer terminate_msg 0) 5) = 1"
proof -
  have h: "pg_server_handle_client server1 client0 (recv_buffer terminate_msg 0) 5 = (client0, 0)"
    by (simp add: pg_server_handle_client_def server1_eq default_callbacks_def
        pg_default_terminate_callback_def recv_buffer_nth terminate_msg_def msg_defs)
  show ?thesis
    by (simp add: pg_server_run_client_def h [unfolded server1_eq] server1_eq live_def)
qed

section \<open>The MD5 password hash\<close>

lemma less_16_cases:
  "n < 16 \<Longrightarrow> n \<in> {0, 1, 2, 3, 4, 5, 6, 7, 8, 9, 10, 11, 12, 13, 14, 15::nat}"
  by simp arith

lemma hex_chars_nth: "n < 16 \<Longrightarrow> hex_chars ! n = hex_digit n"
  by (drule less_16_cases) (auto simp add: hex_chars_def ascii_def hex_digit_def)

lemma hex_digit_nonzero: "n < 16 \<Longrightarrow> hex_digit n \<noteq> 0"
  by (drule less_16_cases) (auto simp add: hex_digit_def)

lemma low_nibble: "unat ((b :: byte) AND 0xF) = unat b mod 16"
proof -
  have "b AND 0xF = take_bit 4 b"
    by (simp add: take_bit_eq_mask mask_eq_exp_minus_1)
  then show ?thesis by (simp add: unsigned_take_bit_eq take_bit_eq_mod unat_mod_distrib)
qed

lemma high_nibble: "unat (drop_bit 4 (b :: byte) AND 0xF) = unat b div 16"
proof -
  have "unat (drop_bit 4 b AND 0xF) = unat (drop_bit 4 b) mod 16"
    by (rule low_nibble)
  also have "unat (drop_bit 4 b) = unat b div 16"
    by (simp add: unat_drop_bit_eq drop_bit_eq_div unat_div_distrib)
  also have "unat b div 16 mod 16 = unat b div 16"
    using unsigned_less [of b, where 'a = nat] by simp
  finally show ?thesis .
qed

lemma lower_hex_Cons:
  "lower_hex (b # bs) = hex_digit (unat b div 16) # hex_digit (unat b mod 16) # lower_hex bs"
  by (simp add: lower_hex_def)

lemma length_lower_hex [simp]: "length (lower_hex bs) = 2 * length bs"
  by (induction bs) (simp_all add: lower_hex_def)

lemma c_str_lower_hex: "c_str (lower_hex bs @ 0 # rest) = lower_hex bs"
proof (induction bs)
  case Nil
  show ?case by (simp add: lower_hex_def c_str_def)
next
  case (Cons b bs)
  have "unat b div 16 < 16" "unat b mod 16 < 16"
    using unsigned_less [of b, where 'a = nat] by simp_all
  then have "hex_digit (unat b div 16) \<noteq> 0" "hex_digit (unat b mod 16) \<noteq> 0"
    by (simp_all add: hex_digit_nonzero)
  with Cons show ?case by (simp add: lower_hex_Cons c_str_def)
qed

lemma take_update2:
  "2 * i + 1 < length hex \<Longrightarrow>
     take (2 * Suc i) (hex[i * 2 := a, i * 2 + 1 := b]) = take (2 * i) hex @ [a, b]"
  by (simp add: take_Suc_conv_app_nth mult.commute)

lemma drop_update2:
  "i < len \<Longrightarrow> drop (2 * len) (hex[i * 2 := a, i * 2 + 1 := b]) = drop (2 * len) hex"
  by simp

lemma bin_to_hex_loop_eq:
  assumes "i \<le> len" and "len \<le> length data" and "2 * len \<le> length hex"
  shows "bin_to_hex_loop data len i hex =
           take (2 * i) hex @ lower_hex (take (len - i) (drop i data)) @ drop (2 * len) hex"
  using assms
proof (induction data len i hex rule: bin_to_hex_loop.induct)
  case (1 data len i hex)
  show ?case
  proof (cases "i < len")
    case False
    with 1 show ?thesis
      by (subst bin_to_hex_loop.simps) (simp add: lower_hex_def)
  next
    case True
    let ?a = "hex_chars ! unat (drop_bit 4 (data ! i) AND 0xF)"
    let ?b = "hex_chars ! unat (data ! i AND 0xF)"
    let ?hex' = "hex[i * 2 := ?a, i * 2 + 1 := ?b]"
    have "unat (data ! i) div 16 < 16" "unat (data ! i) mod 16 < 16"
      using unsigned_less [of "data ! i", where 'a = nat] by simp_all
    then have nib: "?a = hex_digit (unat (data ! i) div 16)"
      "?b = hex_digit (unat (data ! i) mod 16)"
      by (simp only: high_nibble hex_chars_nth, simp only: low_nibble hex_chars_nth)
    have len': "2 * i + 1 < length hex" using True "1.prems" by simp
    have dat: "take (len - i) (drop i data) = data ! i # take (len - Suc i) (drop (Suc i) data)"
      using True "1.prems"
      by (metis Cons_nth_drop_Suc Suc_diff_Suc less_le_trans take_Suc_Cons)
    have "bin_to_hex_loop data len i hex = bin_to_hex_loop data len (Suc i) ?hex'"
      using True by (subst bin_to_hex_loop.simps) simp
    also have "\<dots> = take (2 * Suc i) ?hex'
        @ lower_hex (take (len - Suc i) (drop (Suc i) data)) @ drop (2 * len) ?hex'"
      using True "1.prems" by (intro "1.IH") simp_all
    also have "\<dots> = (take (2 * i) hex @ [?a, ?b])
        @ lower_hex (take (len - Suc i) (drop (Suc i) data)) @ drop (2 * len) hex"
      by (simp only: take_update2 [OF len'] drop_update2 [OF True])
    also have "\<dots> = take (2 * i) hex @ lower_hex (take (len - i) (drop i data))
        @ drop (2 * len) hex"
      by (simp only: dat lower_hex_Cons nib) simp
    finally show ?thesis .
  qed
qed

lemma bin_to_hex_eq:
  assumes "len \<le> length data" and "2 * len < length hex"
  shows "bin_to_hex data len hex = lower_hex (take len data) @ 0 # drop (2 * len + 1) hex"
proof -
  have "bin_to_hex_loop data len 0 hex = lower_hex (take len data) @ drop (2 * len) hex"
    using assms by (simp add: bin_to_hex_loop_eq)
  moreover have "drop (2 * len) hex = hex ! (2 * len) # drop (2 * len + 1) hex"
    using assms by (simp add: Cons_nth_drop_Suc)
  ultimately show ?thesis
    using assms by (simp add: bin_to_hex_def list_update_append mult.commute min_absorb2)
qed

text \<open>
  C10: for every password, user name and salt (NUL-terminated strings), \<^verbatim>\<open>pg_md5_hash\<close>
  produces the string \<^verbatim>\<open>md5\<close> followed by the lowercase hexadecimal encoding of
  MD5(hex(MD5(password ++ username)) ++ salt), and the output is exactly 35 characters
  plus a NUL terminator. The digest function is any function with 16-byte results, and
  the caller's array holds at least 36 bytes.
\<close>

theorem pg_md5_hash_double_md5:
  assumes "\<forall>m. length (digest m) = MD5_DIGEST_LENGTH" and "36 \<le> length result"
  shows "c_str (pg_md5_hash digest pw username salt result)
           = ascii ''md5''
             @ lower_hex (digest (lower_hex (digest (c_str pw @ c_str username)) @ c_str salt))
    \<and> strlen (pg_md5_hash digest pw username salt result) = 35
    \<and> pg_md5_hash digest pw username salt result ! 35 = 0"
proof -
  let ?d1 = "digest (c_str pw @ c_str username)"
  let ?hex = "bin_to_hex ?d1 16 (replicate 33 0)"
  have d16: "\<And>m. length (digest m) = 16"
    using assms(1) by (simp add: MD5_DIGEST_LENGTH_def)
  have tk: "\<And>p. take (strlen p) p = c_str p"
    by (simp add: strlen_def c_str_def takeWhile_eq_take [symmetric])
  have hex: "?hex = lower_hex ?d1 @ [0]"
    by (simp add: bin_to_hex_eq d16)
  have chex: "c_str ?hex = lower_hex ?d1"
    unfolding hex by (rule c_str_lower_hex)
  let ?d2 = "digest (lower_hex ?d1 @ c_str salt)"
  have cs: "c_str (ascii ''md5'') = ascii ''md5''"
    by (simp add: c_str_def ascii_def)
  have r1: "strcpy result (ascii ''md5'') = ascii ''md5'' @ 0 # drop 4 result"
    by (simp add: strcpy_def strlen_def cs) (simp add: eval_nat_numeral)
  have "pg_md5_hash digest pw username salt result
      = take 3 (strcpy result (ascii ''md5''))
        @ bin_to_hex ?d2 16 (drop 3 (strcpy result (ascii ''md5'')))"
    by (simp add: pg_md5_hash_def MD5_Init_def MD5_Update_def MD5_Final_def Let_def tk
        MD5_DIGEST_LENGTH_def hex c_str_lower_hex)
  also have "\<dots> = ascii ''md5'' @ lower_hex ?d2 @ 0 # drop 36 result"
    unfolding r1 using assms(2) by (simp add: ascii_def bin_to_hex_eq d16)
  finally have res: "pg_md5_hash digest pw username salt result
      = ascii ''md5'' @ lower_hex ?d2 @ 0 # drop 36 result" .
  have c: "c_str (pg_md5_hash digest pw username salt result) = ascii ''md5'' @ lower_hex ?d2"
    unfolding res
    using c_str_lower_hex [of ?d2 "drop 36 result"]
    by (simp add: c_str_def ascii_def)
  have "length (lower_hex ?d2) = 32" by (simp add: d16)
  then show ?thesis
    using c by (simp add: strlen_def res nth_append)
qed

lemma length_le32 [simp]: "length (le32 w) = 4"
  by (simp add: le32_def)

lemma length_md5: "length (md5 m) = 16"
  by (simp add: md5_def split: prod.splits)

lemma md5_empty: "lower_hex (md5 []) = ascii ''d41d8cd98f00b204e9800998ecf8427e''"
  by code_simp

lemma pg_md5_hash_postgres:
  "c_str (pg_md5_hash md5 (ascii ''postgres'' @ [0]) (ascii ''postgres'' @ [0])
      (ascii ''abcd'' @ [0]) result_buffer) = ascii ''md50800ba833a175e428fc0110c29998942''"
  by code_simp

theorem pg_md5_hash_double_md5_witness:
  "(\<forall>m. length (md5 m) = MD5_DIGEST_LENGTH) \<and> 36 \<le> length result_buffer
   \<and> c_str (pg_md5_hash md5 (ascii ''postgres'' @ [0]) (ascii ''postgres'' @ [0])
        (ascii ''abcd'' @ [0]) result_buffer)
       = ascii ''md5''
         @ lower_hex (md5 (lower_hex (md5 (c_str (ascii ''postgres'' @ [0])
                                           @ c_str (ascii ''postgres'' @ [0])))
                           @ c_str (ascii ''abcd'' @ [0])))
   \<and> strlen (pg_md5_hash md5 (ascii ''postgres'' @ [0]) (ascii ''postgres'' @ [0])
        (ascii ''abcd'' @ [0]) result_buffer) = 35
   \<and> pg_md5_hash md5 (ascii ''postgres'' @ [0]) (ascii ''postgres'' @ [0])
        (ascii ''abcd'' @ [0]) result_buffer ! 35 = 0
   \<and> c_str (pg_md5_hash md5 (ascii ''postgres'' @ [0]) (ascii ''postgres'' @ [0])
        (ascii ''abcd'' @ [0]) result_buffer) = ascii ''md50800ba833a175e428fc0110c29998942''"
proof -
  have h1: "\<forall>m. length (md5 m) = MD5_DIGEST_LENGTH"
    by (simp add: length_md5 MD5_DIGEST_LENGTH_def)
  have h2: "36 \<le> length result_buffer"
    by (simp add: result_buffer_def)
  from h1 h2 pg_md5_hash_postgres
    pg_md5_hash_double_md5 [OF h1 h2, of "ascii ''postgres'' @ [0]" "ascii ''postgres'' @ [0]"
      "ascii ''abcd'' @ [0]"]
  show ?thesis by blast
qed

end
